theory Spec2Isabelle
  imports Main "HOL-Library.Sublist"
begin

section \<open>Python values\<close>

text \<open>
  A Python \<open>str\<close> is modelled as a \<open>string\<close> holding the UTF-8 encoding of the text.
  Every operation the program applies to text (concatenation, equality, search for an
  ASCII needle, the character class \<open>[^/]\<close>) gives the same answer on the encoding as on
  the code points; the three that look at code points (\<open>str.strip\<close>, iteration over a
  \<open>str\<close>, \<open>str.lower\<close>) are written out on the encoding below.
\<close>

datatype py_error =
    KeyError
  | TypeError
  | AttributeError
  | JSONDecodeError
  | EOFError
  | OtherError string
  | HTTPException int string

text \<open>
  The value \<open>response.json()\<close> returns. A JSON object becomes a \<open>dict\<close>, given by its
  items in insertion order and read with \<open>map_of\<close>. Numbers are integers: GitHub's
  payloads carry no fractional numbers, and floating point is outside the model.
\<close>

datatype json =
    JNull
  | JBool bool
  | JInt int
  | JStr string
  | JArr "json list"
  | JObj "(string \<times> json) list"

text \<open>
  What the program takes from the Python library and the model does not compute:
  \<open>fmt_size_mb n\<close> is \<open>f"{n / 1024:.1f}"\<close> (float division and formatting),
  \<open>b64decode_utf8 s\<close> is \<open>base64.b64decode(s).decode('utf-8')\<close>, and \<open>py_repr v\<close> is
  \<open>str(v)\<close> for a \<open>list\<close> or \<open>dict\<close> \<open>v\<close>.
\<close>

record runtime =
  fmt_size_mb :: "int \<Rightarrow> py_error + string"
  b64decode_utf8 :: "string \<Rightarrow> py_error + string"
  py_repr :: "json \<Rightarrow> string"

definition bnd :: "py_error + 'a \<Rightarrow> ('a \<Rightarrow> py_error + 'b) \<Rightarrow> py_error + 'b" where
  "bnd m f = (case m of Inl e \<Rightarrow> Inl e | Inr v \<Rightarrow> f v)"

fun digit_char :: "nat \<Rightarrow> char" where
  "digit_char n = char_of (48 + n)"

fun str_nat :: "nat \<Rightarrow> string" where
  "str_nat n = (if n < 10 then [digit_char n] else str_nat (n div 10) @ [digit_char (n mod 10)])"

definition str_int :: "int \<Rightarrow> string" where
  "str_int i = (if i < 0 then CHR ''-'' # str_nat (nat (- i)) else str_nat (nat i))"

text \<open>\<open>str(v)\<close>, as an f-string applies it to a value taken from the decoded JSON.\<close>

fun py_str :: "runtime \<Rightarrow> json \<Rightarrow> string" where
  "py_str rt JNull = ''None''"
| "py_str rt (JBool b) = (if b then ''True'' else ''False'')"
| "py_str rt (JInt i) = str_int i"
| "py_str rt (JStr s) = s"
| "py_str rt (JArr xs) = py_repr rt (JArr xs)"
| "py_str rt (JObj kvs) = py_repr rt (JObj kvs)"

text \<open>\<open>bool(v)\<close>: the test behind \<open>if v\<close> and \<open>not v\<close>.\<close>

fun py_truthy :: "json \<Rightarrow> bool" where
  "py_truthy JNull = False"
| "py_truthy (JBool b) = b"
| "py_truthy (JInt i) = (i \<noteq> 0)"
| "py_truthy (JStr s) = (s \<noteq> [])"
| "py_truthy (JArr xs) = (xs \<noteq> [])"
| "py_truthy (JObj kvs) = (kvs \<noteq> [])"

text \<open>\<open>v[k]\<close> for a string key \<open>k\<close>: only a \<open>dict\<close> accepts it.\<close>

fun py_getitem :: "json \<Rightarrow> string \<Rightarrow> py_error + json" where
  "py_getitem (JObj kvs) k = (case map_of kvs k of None \<Rightarrow> Inl KeyError | Some v \<Rightarrow> Inr v)"
| "py_getitem v k = Inl TypeError"

text \<open>\<open>v.get(k, d)\<close>: an attribute only a \<open>dict\<close> has.\<close>

fun py_get :: "json \<Rightarrow> string \<Rightarrow> json \<Rightarrow> py_error + json" where
  "py_get (JObj kvs) k d = (case map_of kvs k of None \<Rightarrow> Inr d | Some v \<Rightarrow> Inr v)"
| "py_get v k d = Inl AttributeError"

text \<open>\<open>needle in hay\<close> on two strings: \<open>needle\<close> occurs in \<open>hay\<close> as a contiguous run.\<close>

fun str_contains :: "string \<Rightarrow> string \<Rightarrow> bool" where
  "str_contains needle [] = (needle = [])"
| "str_contains needle (c # cs) = (prefix needle (c # cs) \<or> str_contains needle cs)"

text \<open>\<open>k in v\<close> for a string \<open>k\<close>: key of a dict, substring of a str, element of a list.\<close>

fun py_in :: "string \<Rightarrow> json \<Rightarrow> py_error + bool" where
  "py_in k (JObj kvs) = Inr (map_of kvs k \<noteq> None)"
| "py_in k (JStr s) = Inr (str_contains k s)"
| "py_in k (JArr xs) = Inr (JStr k \<in> set xs)"
| "py_in k v = Inl TypeError"

definition is_cont :: "char \<Rightarrow> bool" where
  "is_cont c = ((128::nat) \<le> of_char c \<and> (of_char c :: nat) < 192)"

text \<open>
  The characters of a \<open>str\<close>: each code point is a byte that is no continuation byte,
  followed by its continuation bytes.
\<close>

function utf8_chars :: "string \<Rightarrow> string list" where
  "utf8_chars [] = []"
| "utf8_chars (c # cs) = (c # takeWhile is_cont cs) # utf8_chars (dropWhile is_cont cs)"
  by pat_completeness auto
termination
  by (relation "measure length") (auto simp: length_dropWhile_le less_Suc_eq_le)

fun first_keys :: "string list \<Rightarrow> string list \<Rightarrow> string list" where
  "first_keys seen [] = []"
| "first_keys seen (k # ks) =
     (if k \<in> set seen then first_keys seen ks else k # first_keys (k # seen) ks)"

text \<open>\<open>iter(v)\<close>: the elements a \<open>for\<close> loop or \<open>str.join\<close> visits.\<close>

fun py_iter :: "json \<Rightarrow> py_error + json list" where
  "py_iter (JArr xs) = Inr xs"
| "py_iter (JObj kvs) = Inr (map JStr (first_keys [] (map fst kvs)))"
| "py_iter (JStr s) = Inr (map JStr (utf8_chars s))"
| "py_iter v = Inl TypeError"

fun join :: "string \<Rightarrow> string list \<Rightarrow> string" where
  "join sep [] = []"
| "join sep [x] = x"
| "join sep (x # y # ys) = x @ sep @ join sep (y # ys)"

fun all_strs :: "json list \<Rightarrow> py_error + string list" where
  "all_strs [] = Inr []"
| "all_strs (JStr s # vs) = bnd (all_strs vs) (\<lambda>ss. Inr (s # ss))"
| "all_strs (v # vs) = Inl TypeError"

text \<open>\<open>sep.join(v)\<close>: every element of \<open>v\<close> has to be a \<open>str\<close>.\<close>

definition py_join :: "string \<Rightarrow> json \<Rightarrow> py_error + string" where
  "py_join sep v = bnd (py_iter v) (\<lambda>xs. bnd (all_strs xs) (\<lambda>ss. Inr (join sep ss)))"

section \<open>The URL pattern\<close>

text \<open>
  \<open>re.search(r'github\.com[:/]([^/]+)/([^/]+?)(?:\.git)?$', github_url)\<close>.
  \<open>$\<close> holds at the end of the string and before a newline that ends the string.
\<close>

definition at_end :: "string \<Rightarrow> bool" where
  "at_end s = (s = [] \<or> s = [CHR 0x0A])"

text \<open>\<open>(?:\.git)?$\<close>: with the suffix, or without it.\<close>

definition tail_ok :: "string \<Rightarrow> bool" where
  "tail_ok s = ((prefix ''.git'' s \<and> at_end (drop 4 s)) \<or> at_end s)"

text \<open>
  \<open>([^/]+?)\<close> is lazy: the group holds \<open>acc\<close> and grows by one character that is not a
  slash only when the rest of the pattern fails on what follows.
\<close>

fun repo_lazy :: "string \<Rightarrow> string \<Rightarrow> string option" where
  "repo_lazy acc [] = (if tail_ok [] then Some acc else None)"
| "repo_lazy acc (c # cs) =
     (if tail_ok (c # cs) then Some acc
      else if c = CHR ''/'' then None
      else repo_lazy (acc @ [c]) cs)"

definition match_repo :: "string \<Rightarrow> string option" where
  "match_repo s =
     (case s of
        [] \<Rightarrow> None
      | c # cs \<Rightarrow> (if c = CHR ''/'' then None else repo_lazy [c] cs))"

text \<open>
  The match that starts at the head of \<open>s\<close>. \<open>([^/]+)\<close> is greedy and a slash has to
  follow it, so the group is the whole run of characters up to the next slash: a shorter
  run is followed by a character that is no slash.
\<close>

definition match_here :: "string \<Rightarrow> (string \<times> string) option" where
  "match_here s =
     (if \<not> prefix ''github.com'' s then None
      else (case drop 10 s of
        [] \<Rightarrow> None
      | sep # r \<Rightarrow>
          (if sep \<noteq> CHR '':'' \<and> sep \<noteq> CHR ''/'' then None
           else (let owner = takeWhile (\<lambda>c. c \<noteq> CHR ''/'') r;
                     rest = dropWhile (\<lambda>c. c \<noteq> CHR ''/'') r
                 in (if owner = [] then None
                     else (case rest of
                       [] \<Rightarrow> None
                     | slash # r' \<Rightarrow> map_option (Pair owner) (match_repo r')))))))"

text \<open>\<open>re.search\<close> tries the start positions from left to right; the first match wins.\<close>

fun re_search :: "string \<Rightarrow> (string \<times> string) option" where
  "re_search [] = match_here []"
| "re_search (c # cs) =
     (case match_here (c # cs) of Some g \<Rightarrow> Some g | None \<Rightarrow> re_search cs)"

section \<open>The GitHub client\<close>

record request =
  url :: string
  headers :: "(string \<times> string) list"

text \<open>
  An \<open>httpx\<close> response: \<open>response_text\<close> is \<open>response.text\<close>, and \<open>response_json\<close> is what
  \<open>response.json()\<close> returns, \<open>None\<close> when the body is no JSON document and the call raises.
\<close>

record response =
  status_code :: int
  response_text :: string
  response_json :: "json option"

text \<open>
  \<open>client\<close> is \<open>ctx.deps.client.get\<close>: it answers a request with a response or raises
  (a transport error, a URL it rejects).
\<close>

record GitHubDeps =
  client :: "request \<Rightarrow> py_error + response"
  github_token :: "string option"

record RunContext =
  deps :: GitHubDeps

text \<open>What a query function does besides returning, in the order it does it.\<close>

datatype event = HttpGet request | B64Decode json

type_synonym tool_result = "(py_error + string) \<times> event list"

text \<open>\<open>{'Authorization': f'token {ctx.deps.github_token}'} if ctx.deps.github_token else {}\<close>\<close>

definition auth_headers :: "RunContext \<Rightarrow> (string \<times> string) list" where
  "auth_headers ctx =
     (case github_token (deps ctx) of
        None \<Rightarrow> []
      | Some t \<Rightarrow> (if t = [] then [] else [(''Authorization'', ''token '' @ t)]))"

definition json_of :: "response \<Rightarrow> py_error + json" where
  "json_of r = (case response_json r of None \<Rightarrow> Inl JSONDecodeError | Some v \<Rightarrow> Inr v)"

section \<open>The query functions\<close>

text \<open>
  The five tools of \<open>app.py\<close>. \<open>github_agent.py\<close> and \<open>cli.py\<close> hold copies of
  \<open>get_repo_info\<close> and \<open>get_repo_structure\<close>; the copy of \<open>get_repo_structure\<close> in \<open>cli.py\<close>
  writes other bytes for the two icons and is the same code otherwise.
\<close>

subsection \<open>\<open>get_repo_info\<close>\<close>

text \<open>\<open>data['size'] / 1024\<close>: \<open>int\<close> and \<open>bool\<close> divide, the other JSON values raise.\<close>

fun size_mb_of :: "runtime \<Rightarrow> json \<Rightarrow> py_error + string" where
  "size_mb_of rt (JInt n) = fmt_size_mb rt n"
| "size_mb_of rt (JBool b) = fmt_size_mb rt (if b then 1 else 0)"
| "size_mb_of rt v = Inl TypeError"

definition topics_text :: "json \<Rightarrow> py_error + string" where
  "topics_text data =
     bnd (py_in ''topics'' data) (\<lambda>has.
       if has then bnd (py_get data ''topics'' (JArr [])) (py_join '', '')
       else Inr ''No topics'')"

definition license_text :: "json \<Rightarrow> py_error + json" where
  "license_text data =
     bnd (py_get data ''license'' JNull) (\<lambda>license_info.
       if py_truthy license_info
       then py_get license_info ''name'' (JStr ''No license available'')
       else Inr (JStr ''No license available''))"

text \<open>The body of \<open>get_repo_info\<close> from \<open>data = response.json()\<close> on.\<close>

definition repo_info_text :: "runtime \<Rightarrow> string \<Rightarrow> string \<Rightarrow> response \<Rightarrow> py_error + string" where
  "repo_info_text rt owner repo r =
     bnd (json_of r) (\<lambda>data.
     bnd (py_getitem data ''size'') (\<lambda>size.
     bnd (size_mb_of rt size) (\<lambda>size_mb.
     bnd (py_getitem data ''owner'') (\<lambda>owner_obj.
     bnd (py_getitem owner_obj ''login'') (\<lambda>owner_name.
     bnd (py_getitem data ''forks_count'') (\<lambda>forks_count.
     bnd (py_getitem data ''open_issues_count'') (\<lambda>open_issues_count.
     let pull_requests_url = ''https://github.com/'' @ owner @ ''/'' @ repo @ ''/pulls'' in
     bnd (py_getitem data ''default_branch'') (\<lambda>default_branch.
     bnd (py_getitem data ''visibility'') (\<lambda>visibility.
     bnd (topics_text data) (\<lambda>topics.
     bnd (license_text data) (\<lambda>license_info.
     bnd (py_getitem data ''full_name'') (\<lambda>full_name.
     bnd (py_getitem data ''description'') (\<lambda>description.
     bnd (py_getitem data ''stargazers_count'') (\<lambda>stargazers_count.
     bnd (py_getitem data ''language'') (\<lambda>language.
     bnd (py_getitem data ''created_at'') (\<lambda>created_at.
     bnd (py_getitem data ''updated_at'') (\<lambda>updated_at.
     Inr (''Repository: '' @ py_str rt full_name @ [CHR 0x0A]
        @ ''Owner: '' @ py_str rt owner_name @ [CHR 0x0A]
        @ ''Description: '' @ py_str rt description @ [CHR 0x0A]
        @ ''Size: '' @ size_mb @ ''MB'' @ [CHR 0x0A]
        @ ''Stars: '' @ py_str rt stargazers_count @ [CHR 0x0A]
        @ ''Forks: '' @ py_str rt forks_count @ [CHR 0x0A]
        @ ''Open Issues: '' @ py_str rt open_issues_count @ [CHR 0x0A]
        @ ''Pull Requests: '' @ pull_requests_url @ [CHR 0x0A]
        @ ''Language: '' @ py_str rt language @ [CHR 0x0A]
        @ ''Created: '' @ py_str rt created_at @ [CHR 0x0A]
        @ ''Last Updated: '' @ py_str rt updated_at @ [CHR 0x0A]
        @ ''Default Branch: '' @ py_str rt default_branch @ [CHR 0x0A]
        @ ''Visibility: '' @ py_str rt visibility @ [CHR 0x0A]
        @ ''Topics: '' @ topics @ [CHR 0x0A]
        @ ''License: '' @ py_str rt license_info))))))))))))))))))"

definition repo_request :: "RunContext \<Rightarrow> string \<Rightarrow> string \<Rightarrow> request" where
  "repo_request ctx owner repo =
     \<lparr>url = ''https://api.github.com/repos/'' @ owner @ ''/'' @ repo,
      headers = auth_headers ctx\<rparr>"

definition get_repo_info :: "runtime \<Rightarrow> RunContext \<Rightarrow> string \<Rightarrow> tool_result" where
  "get_repo_info rt ctx github_url =
     (case re_search github_url of
        None \<Rightarrow> (Inr ''Invalid GitHub URL format.'', [])
      | Some (owner, repo) \<Rightarrow>
          (let req = repo_request ctx owner repo
           in (case client (deps ctx) req of
                 Inl e \<Rightarrow> (Inl e, [HttpGet req])
               | Inr r \<Rightarrow>
                   (if status_code r \<noteq> 200
                    then (Inr (''Failed to get repository info: '' @ response_text r), [HttpGet req])
                    else (repo_info_text rt owner repo r, [HttpGet req])))))"

subsection \<open>\<open>get_repo_structure\<close>\<close>

definition excluded_dirs :: "string list" where
  "excluded_dirs = [''.git/'', ''node_modules/'', ''__pycache__/'']"

text \<open>\<open>any(excluded in item['path'] for excluded in [...])\<close>, which stops at the first hit.\<close>

fun any_excluded :: "json \<Rightarrow> string list \<Rightarrow> py_error + bool" where
  "any_excluded item [] = Inr False"
| "any_excluded item (excluded # rest) =
     bnd (py_getitem item ''path'') (\<lambda>path.
     bnd (py_in excluded path) (\<lambda>hit.
       if hit then Inr True else any_excluded item rest))"

text \<open>The folder and the page emoji (U+1F4C1, U+1F4C4), each followed by a space.\<close>

definition icon_tree :: string where
  "icon_tree = [CHR 0xF0, CHR 0x9F, CHR 0x93, CHR 0x81, CHR 0x20]"

definition icon_blob :: string where
  "icon_blob = [CHR 0xF0, CHR 0x9F, CHR 0x93, CHR 0x84, CHR 0x20]"

definition tree_line :: "runtime \<Rightarrow> json \<Rightarrow> py_error + string" where
  "tree_line rt item =
     bnd (py_getitem item ''type'') (\<lambda>ty.
     bnd (py_getitem item ''path'') (\<lambda>path.
       Inr ((if ty = JStr ''tree'' then icon_tree else icon_blob) @ py_str rt path)))"

text \<open>The loop over \<open>tree\<close>; \<open>structure\<close> is the list built so far.\<close>

fun build_structure :: "runtime \<Rightarrow> json list \<Rightarrow> string list \<Rightarrow> py_error + string list" where
  "build_structure rt [] structure = Inr structure"
| "build_structure rt (item # items) structure =
     bnd (any_excluded item excluded_dirs) (\<lambda>hit.
       if \<not> hit
       then bnd (tree_line rt item) (\<lambda>line. build_structure rt items (structure @ [line]))
       else build_structure rt items structure)"

text \<open>The body of \<open>get_repo_structure\<close> from \<open>data = response.json()\<close> on.\<close>

definition structure_text :: "runtime \<Rightarrow> response \<Rightarrow> py_error + string" where
  "structure_text rt r =
     bnd (json_of r) (\<lambda>data.
     bnd (py_getitem data ''tree'') (\<lambda>tree.
     bnd (py_iter tree) (\<lambda>items.
     bnd (build_structure rt items []) (\<lambda>structure.
     Inr (join [CHR 0x0A] structure)))))"

definition tree_request :: "RunContext \<Rightarrow> string \<Rightarrow> string \<Rightarrow> string \<Rightarrow> request" where
  "tree_request ctx owner repo branch =
     \<lparr>url = ''https://api.github.com/repos/'' @ owner @ ''/'' @ repo
              @ ''/git/trees/'' @ branch @ ''?recursive=1'',
      headers = auth_headers ctx\<rparr>"

definition get_repo_structure :: "runtime \<Rightarrow> RunContext \<Rightarrow> string \<Rightarrow> tool_result" where
  "get_repo_structure rt ctx github_url =
     (case re_search github_url of
        None \<Rightarrow> (Inr ''Invalid GitHub URL format'', [])
      | Some (owner, repo) \<Rightarrow>
          (let req = tree_request ctx owner repo ''main'' in
           (case client (deps ctx) req of
              Inl e \<Rightarrow> (Inl e, [HttpGet req])
            | Inr r \<Rightarrow>
                (if status_code r \<noteq> 200
                 then (let req' = tree_request ctx owner repo ''master'' in
                       (case client (deps ctx) req' of
                          Inl e \<Rightarrow> (Inl e, [HttpGet req, HttpGet req'])
                        | Inr r' \<Rightarrow>
                            (if status_code r' \<noteq> 200
                             then (Inr (''Failed to get repository structure: '' @ response_text r'),
                                   [HttpGet req, HttpGet req'])
                             else (structure_text rt r', [HttpGet req, HttpGet req']))))
                 else (structure_text rt r, [HttpGet req])))))"

subsection \<open>\<open>get_file_content\<close>\<close>

text \<open>
  \<open>base64.b64decode(data['content']).decode('utf-8')\<close>: the call is recorded with its
  argument; only a \<open>str\<close> is accepted.
\<close>

fun decode_content :: "runtime \<Rightarrow> json \<Rightarrow> py_error + string" where
  "decode_content rt (JStr s) = b64decode_utf8 rt s"
| "decode_content rt v = Inl TypeError"

text \<open>The body of \<open>get_file_content\<close> from \<open>data = response.json()\<close> on.\<close>

definition file_content_text :: "runtime \<Rightarrow> string \<Rightarrow> response \<Rightarrow> tool_result" where
  "file_content_text rt file_path r =
     (case json_of r of
        Inl e \<Rightarrow> (Inl e, [])
      | Inr data \<Rightarrow>
          (case py_get data ''type'' JNull of
             Inl e \<Rightarrow> (Inl e, [])
           | Inr ty \<Rightarrow>
               (if ty \<noteq> JStr ''file'' then (Inr ''The path does not point to a file'', [])
                else (case py_getitem data ''content'' of
                        Inl e \<Rightarrow> (Inl e, [])
                      | Inr c \<Rightarrow>
                          (bnd (decode_content rt c) (\<lambda>content.
                             Inr (''File: '' @ file_path @ [CHR 0x0A, CHR 0x0A] @ content)),
                           [B64Decode c])))))"

definition contents_request :: "RunContext \<Rightarrow> string \<Rightarrow> string \<Rightarrow> string \<Rightarrow> request" where
  "contents_request ctx owner repo file_path =
     \<lparr>url = ''https://api.github.com/repos/'' @ owner @ ''/'' @ repo
              @ ''/contents/'' @ file_path,
      headers = auth_headers ctx\<rparr>"

definition get_file_content :: "runtime \<Rightarrow> RunContext \<Rightarrow> string \<Rightarrow> string \<Rightarrow> tool_result" where
  "get_file_content rt ctx github_url file_path =
     (case re_search github_url of
        None \<Rightarrow> (Inr ''Invalid GitHub URL format'', [])
      | Some (owner, repo) \<Rightarrow>
          (let req = contents_request ctx owner repo file_path
           in (case client (deps ctx) req of
                 Inl e \<Rightarrow> (Inl e, [HttpGet req])
               | Inr r \<Rightarrow>
                   (if status_code r \<noteq> 200
                    then (Inr (''Failed to get file content: '' @ response_text r), [HttpGet req])
                    else (let (res, evs) = file_content_text rt file_path r
                          in (res, HttpGet req # evs))))))"

subsection \<open>\<open>get_issues\<close> and \<open>get_pull_requests\<close>\<close>

text \<open>The block both functions append for one issue or pull request.\<close>

definition entry_text :: "runtime \<Rightarrow> json \<Rightarrow> py_error + string" where
  "entry_text rt item =
     bnd (py_getitem item ''number'') (\<lambda>number.
     bnd (py_getitem item ''title'') (\<lambda>title.
     bnd (py_getitem item ''state'') (\<lambda>state.
     bnd (py_getitem item ''created_at'') (\<lambda>created_at.
     bnd (py_getitem item ''html_url'') (\<lambda>html_url.
     Inr (''#'' @ py_str rt number @ '' - '' @ py_str rt title @ [CHR 0x0A]
        @ ''State: '' @ py_str rt state @ [CHR 0x0A]
        @ ''Created: '' @ py_str rt created_at @ [CHR 0x0A]
        @ ''URL: '' @ py_str rt html_url @ [CHR 0x0A]))))))"

text \<open>The loop of \<open>get_issues\<close>: an item with a \<open>pull_request\<close> key is skipped.\<close>

fun collect_issues :: "runtime \<Rightarrow> json list \<Rightarrow> string list \<Rightarrow> py_error + string list" where
  "collect_issues rt [] result = Inr result"
| "collect_issues rt (issue # issues) result =
     bnd (py_in ''pull_request'' issue) (\<lambda>is_pr.
       if is_pr then collect_issues rt issues result
       else bnd (entry_text rt issue) (\<lambda>e. collect_issues rt issues (result @ [e])))"

definition issues_text :: "runtime \<Rightarrow> string \<Rightarrow> response \<Rightarrow> py_error + string" where
  "issues_text rt state r =
     bnd (json_of r) (\<lambda>issues.
       if \<not> py_truthy issues then Inr (''No '' @ state @ '' issues found.'')
       else bnd (py_iter issues) (\<lambda>items.
            bnd (collect_issues rt items []) (\<lambda>result.
            Inr (if result \<noteq> [] then join [CHR 0x0A] result
                 else ''No '' @ state @ '' issues found (excluding PRs).''))))"

definition issues_request :: "RunContext \<Rightarrow> string \<Rightarrow> string \<Rightarrow> string \<Rightarrow> request" where
  "issues_request ctx owner repo state =
     \<lparr>url = ''https://api.github.com/repos/'' @ owner @ ''/'' @ repo
              @ ''/issues?state='' @ state @ ''&per_page=10'',
      headers = auth_headers ctx\<rparr>"

definition get_issues :: "runtime \<Rightarrow> RunContext \<Rightarrow> string \<Rightarrow> string \<Rightarrow> tool_result" where
  "get_issues rt ctx github_url state =
     (case re_search github_url of
        None \<Rightarrow> (Inr ''Invalid GitHub URL format'', [])
      | Some (owner, repo) \<Rightarrow>
          (let req = issues_request ctx owner repo state
           in (case client (deps ctx) req of
                 Inl e \<Rightarrow> (Inl e, [HttpGet req])
               | Inr r \<Rightarrow>
                   (if status_code r \<noteq> 200
                    then (Inr (''Failed to get issues: '' @ response_text r), [HttpGet req])
                    else (issues_text rt state r, [HttpGet req])))))"

text \<open>The loop of \<open>get_pull_requests\<close>.\<close>

fun collect_prs :: "runtime \<Rightarrow> json list \<Rightarrow> string list \<Rightarrow> py_error + string list" where
  "collect_prs rt [] result = Inr result"
| "collect_prs rt (pr # prs) result =
     bnd (entry_text rt pr) (\<lambda>e. collect_prs rt prs (result @ [e]))"

definition prs_text :: "runtime \<Rightarrow> string \<Rightarrow> response \<Rightarrow> py_error + string" where
  "prs_text rt state r =
     bnd (json_of r) (\<lambda>prs.
       if \<not> py_truthy prs then Inr (''No '' @ state @ '' pull requests found.'')
       else bnd (py_iter prs) (\<lambda>items.
            bnd (collect_prs rt items []) (\<lambda>result.
            Inr (join [CHR 0x0A] result))))"

definition pulls_request :: "RunContext \<Rightarrow> string \<Rightarrow> string \<Rightarrow> string \<Rightarrow> request" where
  "pulls_request ctx owner repo state =
     \<lparr>url = ''https://api.github.com/repos/'' @ owner @ ''/'' @ repo
              @ ''/pulls?state='' @ state @ ''&per_page=10'',
      headers = auth_headers ctx\<rparr>"

definition get_pull_requests :: "runtime \<Rightarrow> RunContext \<Rightarrow> string \<Rightarrow> string \<Rightarrow> tool_result" where
  "get_pull_requests rt ctx github_url state =
     (case re_search github_url of
        None \<Rightarrow> (Inr ''Invalid GitHub URL format'', [])
      | Some (owner, repo) \<Rightarrow>
          (let req = pulls_request ctx owner repo state
           in (case client (deps ctx) req of
                 Inl e \<Rightarrow> (Inl e, [HttpGet req])
               | Inr r \<Rightarrow>
                   (if status_code r \<noteq> 200
                    then (Inr (''Failed to get pull requests: '' @ response_text r), [HttpGet req])
                    else (prs_text rt state r, [HttpGet req])))))"

section \<open>The agent and its messages\<close>

text \<open>
  A part of a \<open>pydantic_ai\<close> message, with the attributes the program reads:
  \<open>part_kind\<close>, \<open>content\<close>, and \<open>tool_call\<close> (function name and arguments) when the part has
  that attribute.
\<close>

record part =
  part_kind :: string
  content :: string
  tool_call :: "(string \<times> string) option"

datatype message = ModelRequest "part list" | ModelResponse "part list"

fun parts :: "message \<Rightarrow> part list" where
  "parts (ModelRequest ps) = ps"
| "parts (ModelResponse ps) = ps"

definition UserPromptPart :: "string \<Rightarrow> part" where
  "UserPromptPart c = \<lparr>part_kind = ''user-prompt'', content = c, tool_call = None\<rparr>"

definition TextPart :: "string \<Rightarrow> part" where
  "TextPart c = \<lparr>part_kind = ''text'', content = c, tool_call = None\<rparr>"

text \<open>What \<open>github_agent.run\<close> is called with, and what it returns.\<close>

record agent_call =
  call_prompt :: string
  call_token :: "string option"
  call_history :: "message list"

record run_result =
  data :: string
  new_messages :: "message list"

text \<open>
  The agent is the hosted model behind \<open>Agent.run\<close>: a parameter of the model. \<open>Inl msg\<close>
  is an exception raised by the run, \<open>msg\<close> its \<open>str\<close>.
\<close>

type_synonym agent = "agent_call \<Rightarrow> string + run_result"

section \<open>The chat endpoint\<close>

record ChatRequest =
  chat_message :: string
  chat_github_token :: "string option"
  groq_token :: string
  history :: "(string \<times> string) list list option"

record ChatResponse =
  chat_response :: string
  tool_calls :: "(string \<times> string) list"

text \<open>The loop that fills \<open>message_history\<close>; a message is a \<open>dict\<close> from \<open>str\<close> to \<open>str\<close>.\<close>

fun convert_history :: "(string \<times> string) list list \<Rightarrow> message list \<Rightarrow> py_error + message list" where
  "convert_history [] message_history = Inr message_history"
| "convert_history (msg # rest) message_history =
     (case map_of msg ''role'' of
        None \<Rightarrow> Inl KeyError
      | Some role \<Rightarrow>
          (if role = ''user''
           then (case map_of msg ''content'' of
                   None \<Rightarrow> Inl KeyError
                 | Some c \<Rightarrow>
                     convert_history rest (message_history @ [ModelRequest [UserPromptPart c]]))
           else if role = ''assistant''
           then (case map_of msg ''content'' of
                   None \<Rightarrow> Inl KeyError
                 | Some c \<Rightarrow>
                     convert_history rest (message_history @ [ModelResponse [TextPart c]]))
           else convert_history rest message_history))"

text \<open>The tool calls collected from \<open>result.new_messages()\<close>.\<close>

definition extract_tool_calls :: "message list \<Rightarrow> (string \<times> string) list" where
  "extract_tool_calls msgs =
     concat (map (\<lambda>msg. concat (map (\<lambda>p. case tool_call p of None \<Rightarrow> [] | Some tc \<Rightarrow> [tc])
                                     (parts msg))) msgs)"

text \<open>
  The handler of \<open>POST /api/chat\<close>. It returns the response or the exception that leaves
  it, and the calls it made to the agent. \<open>get_github_agent\<close> builds the agent from the
  model provider's key.
\<close>

definition chat :: "(string \<Rightarrow> agent) \<Rightarrow> ChatRequest \<Rightarrow> (py_error + ChatResponse) \<times> agent_call list" where
  "chat get_github_agent request =
     (if groq_token request = []
      then (Inl (HTTPException 400 ''Groq API token is required''), [])
      else (let github_agent = get_github_agent (groq_token request) in
            (case history request of
               None \<Rightarrow> (Inl TypeError, [])
             | Some h \<Rightarrow>
                 (case convert_history h [] of
                    Inl e \<Rightarrow> (Inl e, [])
                  | Inr mh \<Rightarrow>
                      (let call = \<lparr>call_prompt = chat_message request,
                                   call_token = chat_github_token request,
                                   call_history = mh\<rparr>
                       in (case github_agent call of
                             Inl msg \<Rightarrow> (Inl (HTTPException 500 msg), [call])
                           | Inr result \<Rightarrow>
                               (Inr \<lparr>chat_response = data result,
                                     tool_calls = extract_tool_calls (new_messages result)\<rparr>,
                                [call])))))))"

text \<open>
  The endpoint as a client meets it. The body of the request is a JSON document; FastAPI
  validates it against \<open>ChatRequest\<close> before the handler runs and answers 422 when it does
  not fit, without calling the handler. The fields as the class declares them:
  \<open>message: str\<close> and \<open>groq_token: str\<close> are required strings, \<open>github_token: Optional[str]\<close>
  defaults to \<open>None\<close>, and \<open>history: Optional[List[Dict[str, str]]]\<close> defaults to the empty
  list. Fields the class does not declare are ignored.
\<close>

fun opt_str_field :: "json option \<Rightarrow> string option option" where
  "opt_str_field None = Some None"
| "opt_str_field (Some JNull) = Some None"
| "opt_str_field (Some (JStr s)) = Some (Some s)"
| "opt_str_field (Some v) = None"

fun str_field :: "json option \<Rightarrow> string option" where
  "str_field (Some (JStr s)) = Some s"
| "str_field v = None"

fun str_dict :: "(string \<times> json) list \<Rightarrow> (string \<times> string) list option" where
  "str_dict [] = Some []"
| "str_dict ((k, JStr s) # kvs) = map_option ((#) (k, s)) (str_dict kvs)"
| "str_dict ((k, v) # kvs) = None"

fun str_dicts :: "json list \<Rightarrow> (string \<times> string) list list option" where
  "str_dicts [] = Some []"
| "str_dicts (JObj kvs # vs) =
     (case str_dict kvs of
        None \<Rightarrow> None
      | Some d \<Rightarrow> map_option ((#) d) (str_dicts vs))"
| "str_dicts (v # vs) = None"

fun history_field :: "json option \<Rightarrow> (string \<times> string) list list option option" where
  "history_field None = Some (Some [])"
| "history_field (Some JNull) = Some None"
| "history_field (Some (JArr vs)) = map_option Some (str_dicts vs)"
| "history_field (Some v) = None"

text \<open>The \<open>ChatRequest\<close> a body is validated to; \<open>None\<close> when validation fails.\<close>

fun validate_ChatRequest :: "json \<Rightarrow> ChatRequest option" where
  "validate_ChatRequest (JObj kvs) =
     (case str_field (map_of kvs ''message'') of
        None \<Rightarrow> None
      | Some m \<Rightarrow>
          (case opt_str_field (map_of kvs ''github_token'') of
             None \<Rightarrow> None
           | Some gh \<Rightarrow>
               (case str_field (map_of kvs ''groq_token'') of
                  None \<Rightarrow> None
                | Some gq \<Rightarrow>
                    (case history_field (map_of kvs ''history'') of
                       None \<Rightarrow> None
                     | Some h \<Rightarrow>
                         Some \<lparr>chat_message = m, chat_github_token = gh,
                               groq_token = gq, history = h\<rparr>))))"
| "validate_ChatRequest v = None"

text \<open>
  The status of the answer when the handler has run: 200 with the response it returns,
  the status of the \<open>HTTPException\<close> it raises, 500 for any other exception.
\<close>

fun status_of :: "py_error + ChatResponse \<Rightarrow> int" where
  "status_of (Inr response) = 200"
| "status_of (Inl (HTTPException code detail)) = code"
| "status_of (Inl e) = 500"

text \<open>\<open>POST /api/chat\<close>: the status of the answer and the calls made to the agent.\<close>

definition api_chat :: "(string \<Rightarrow> agent) \<Rightarrow> json \<Rightarrow> int \<times> agent_call list" where
  "api_chat get_github_agent body =
     (case validate_ChatRequest body of
        None \<Rightarrow> (422, [])
      | Some request \<Rightarrow>
          (case chat get_github_agent request of
             (result, agent_calls) \<Rightarrow> (status_of result, agent_calls)))"

section \<open>The command-line loop\<close>

text \<open>
  The UTF-8 encodings of the characters \<open>str.strip()\<close> removes: U+0009 to U+000D,
  U+001C to U+0020, U+0085, U+00A0, U+1680, U+2000 to U+200A, U+2028, U+2029, U+202F,
  U+205F and U+3000.
\<close>

definition ws_codes :: "string list" where
  "ws_codes =
     [ [CHR 0x09], [CHR 0x0A], [CHR 0x0B], [CHR 0x0C], [CHR 0x0D],
      [CHR 0x1C], [CHR 0x1D], [CHR 0x1E], [CHR 0x1F], [CHR 0x20],
      [CHR 0xC2, CHR 0x85], [CHR 0xC2, CHR 0xA0], [CHR 0xE1, CHR 0x9A, CHR 0x80],
      [CHR 0xE2, CHR 0x80, CHR 0x80], [CHR 0xE2, CHR 0x80, CHR 0x81],
      [CHR 0xE2, CHR 0x80, CHR 0x82], [CHR 0xE2, CHR 0x80, CHR 0x83],
      [CHR 0xE2, CHR 0x80, CHR 0x84], [CHR 0xE2, CHR 0x80, CHR 0x85],
      [CHR 0xE2, CHR 0x80, CHR 0x86], [CHR 0xE2, CHR 0x80, CHR 0x87],
      [CHR 0xE2, CHR 0x80, CHR 0x88], [CHR 0xE2, CHR 0x80, CHR 0x89],
      [CHR 0xE2, CHR 0x80, CHR 0x8A], [CHR 0xE2, CHR 0x80, CHR 0xA8],
      [CHR 0xE2, CHR 0x80, CHR 0xA9], [CHR 0xE2, CHR 0x80, CHR 0xAF],
      [CHR 0xE2, CHR 0x81, CHR 0x9F], [CHR 0xE3, CHR 0x80, CHR 0x80]]"

function lstrip :: "string \<Rightarrow> string" where
  "lstrip s =
     (case find (\<lambda>w. prefix w s) ws_codes of
        None \<Rightarrow> s
      | Some w \<Rightarrow> lstrip (drop (length w) s))"
  by pat_completeness auto
termination
proof (relation "measure length")
  show "wf (measure length)" by simp
next
  fix s w
  assume "find (\<lambda>w. prefix w s) ws_codes = Some w"
  then have "w \<in> set ws_codes" and "prefix w s"
    by (auto simp: find_Some_iff)
  then have "w \<noteq> []" and "length w \<le> length s"
    by (auto simp: ws_codes_def prefix_length_le)
  then show "(drop (length w) s, s) \<in> measure length"
    by (cases w) auto
qed

function rstrip :: "string \<Rightarrow> string" where
  "rstrip s =
     (case find (\<lambda>w. suffix w s) ws_codes of
        None \<Rightarrow> s
      | Some w \<Rightarrow> rstrip (take (length s - length w) s))"
  by pat_completeness auto
termination
proof (relation "measure length")
  show "wf (measure length)" by simp
next
  fix s w
  assume "find (\<lambda>w. suffix w s) ws_codes = Some w"
  then have "w \<in> set ws_codes" and "suffix w s"
    by (auto simp: find_Some_iff)
  then have "w \<noteq> []" and "length w \<le> length s"
    by (auto simp: ws_codes_def suffix_length_le)
  then show "(take (length s - length w) s, s) \<in> measure length"
    by (cases w) auto
qed

declare lstrip.simps [simp del] rstrip.simps [simp del]

definition strip :: "string \<Rightarrow> string" where
  "strip s = rstrip (lstrip s)"

text \<open>
  \<open>str.lower()\<close> on the ASCII letters. No other character lowers to text made of ASCII
  \<open>q\<close>, \<open>u\<close>, \<open>i\<close> or \<open>t\<close> alone, so the comparison with \<open>'quit'\<close> is the one Python makes.
\<close>

definition lower_char :: "char \<Rightarrow> char" where
  "lower_char c =
     (if (65::nat) \<le> of_char c \<and> (of_char c :: nat) \<le> 90 then char_of (of_char c + (32::nat)) else c)"

definition lower :: "string \<Rightarrow> string" where
  "lower s = map lower_char s"

text \<open>
  The \<open>CLI\<close> object (\<open>messages\<close>, the token of its \<open>deps\<close>) together with what its \<open>chat\<close>
  method does to the outside: \<open>pos\<close> counts the lines read from standard input,
  \<open>printed\<close> holds the lines written, \<open>calls\<close> the runs of the agent.
\<close>

record CLI =
  messages :: "message list"
  env_token :: "string option"
  pos :: nat
  printed :: "string list"
  calls :: "agent_call list"

definition CLI_init :: "string option \<Rightarrow> CLI" where
  "CLI_init tok = \<lparr>messages = [], env_token = tok, pos = 0, printed = [], calls = []\<rparr>"

text \<open>The test on a line read by \<open>input\<close>: \<open>user_input.lower() == 'quit'\<close> after \<open>strip()\<close>.\<close>

definition is_quit :: "string \<Rightarrow> bool" where
  "is_quit line = (lower (strip line) = ''quit'')"

text \<open>The filter on \<open>result.new_messages()\<close>: every message has \<open>parts\<close>.\<close>

definition is_intermediate :: "message \<Rightarrow> bool" where
  "is_intermediate msg =
     (\<not> (\<exists>p \<in> set (parts msg). part_kind p = ''user-prompt'' \<or> part_kind p = ''text''))"

text \<open>
  The loop body after the test for \<open>quit\<close>: one run of the agent on \<open>user_input\<close>. An
  exception of the run leaves the loop before anything is stored.
\<close>

definition turn :: "agent \<Rightarrow> string \<Rightarrow> CLI \<Rightarrow> py_error option \<times> CLI" where
  "turn github_agent user_input self =
     (let call = \<lparr>call_prompt = user_input, call_token = env_token self,
                  call_history = messages self\<rparr>;
          self1 = self\<lparr>calls := calls self @ [call]\<rparr>
      in (case github_agent call of
            Inl msg \<Rightarrow> (Some (OtherError msg), self1)
          | Inr result \<Rightarrow>
              (None,
               self1\<lparr>messages := messages self
                          @ [ModelRequest [UserPromptPart user_input]]
                          @ filter is_intermediate (new_messages result)
                          @ [ModelResponse [TextPart (data result)]],
                      printed := printed self @ [data result]\<rparr>)))"

text \<open>
  \<open>while True\<close>: \<open>stdin n\<close> is the \<open>n\<close>-th line of standard input, \<open>None\<close> once it is
  exhausted, where \<open>input\<close> raises \<open>EOFError\<close>. The loop returns the exception that ended
  it, or \<open>None\<close> after \<open>break\<close>; on an input without end it may not return.
\<close>

partial_function (option) chat_loop :: "agent \<Rightarrow> (nat \<Rightarrow> string option) \<Rightarrow> CLI \<Rightarrow> (py_error option \<times> CLI) option" where
  "chat_loop github_agent stdin self =
     (case stdin (pos self) of
        None \<Rightarrow> Some (Some EOFError, self)
      | Some line \<Rightarrow>
          (let user_input = strip line; self1 = self\<lparr>pos := Suc (pos self)\<rparr>
           in (if lower user_input = ''quit'' then Some (None, self1)
               else (case turn github_agent user_input self1 of
                       (err, self2) \<Rightarrow>
                         (case err of
                            Some e \<Rightarrow> Some (Some e, self2)
                          | None \<Rightarrow> chat_loop github_agent stdin self2)))))"

declare chat_loop.simps [code]

definition CLI_chat :: "agent \<Rightarrow> (nat \<Rightarrow> string option) \<Rightarrow> CLI \<Rightarrow> (py_error option \<times> CLI) option" where
  "CLI_chat github_agent stdin self =
     chat_loop github_agent stdin
       (self\<lparr>printed := printed self
                 @ [''GitHub Agent CLI (type 'quit' to exit)'', ''Enter your message:'']\<rparr>)"

text \<open>
  The passes of the loop body over the lines \<open>ls\<close>, none of them the sentinel, each read
  from standard input: the state before the next line is read, or \<open>None\<close> when a run of
  the agent raised.
\<close>

fun run_lines :: "agent \<Rightarrow> string list \<Rightarrow> CLI \<Rightarrow> CLI option" where
  "run_lines github_agent [] self = Some self"
| "run_lines github_agent (line # ls) self =
     (case turn github_agent (strip line) (self\<lparr>pos := Suc (pos self)\<rparr>) of
        (err, self2) \<Rightarrow>
          (case err of
             Some e \<Rightarrow> None
           | None \<Rightarrow> run_lines github_agent ls self2))"

section \<open>Notions used to state the properties\<close>

text \<open>The requests among the events of a call.\<close>

fun requests_of :: "event list \<Rightarrow> request list" where
  "requests_of [] = []"
| "requests_of (HttpGet r # evs) = r # requests_of evs"
| "requests_of (B64Decode v # evs) = requests_of evs"

fun decodes_of :: "event list \<Rightarrow> json list" where
  "decodes_of [] = []"
| "decodes_of (HttpGet r # evs) = decodes_of evs"
| "decodes_of (B64Decode v # evs) = v # decodes_of evs"

text \<open>
  A tree item as the git trees endpoint documents it, as far as the function reads it:
  an object with a \<open>path\<close> that is a string and with a \<open>type\<close>.
\<close>

fun tree_item_ok :: "json \<Rightarrow> bool" where
  "tree_item_ok (JObj kvs) =
     ((case map_of kvs ''path'' of Some (JStr p) \<Rightarrow> True | _ \<Rightarrow> False)
      \<and> map_of kvs ''type'' \<noteq> None)"
| "tree_item_ok v = False"

fun item_path :: "json \<Rightarrow> string" where
  "item_path (JObj kvs) = (case map_of kvs ''path'' of Some (JStr p) \<Rightarrow> p | _ \<Rightarrow> [])"
| "item_path v = []"

fun item_is_tree :: "json \<Rightarrow> bool" where
  "item_is_tree (JObj kvs) = (map_of kvs ''type'' = Some (JStr ''tree''))"
| "item_is_tree v = False"

text \<open>The path holds none of \<open>.git/\<close>, \<open>node_modules/\<close>, \<open>__pycache__/\<close>.\<close>

definition listed :: "json \<Rightarrow> bool" where
  "listed item = (\<not> (\<exists>d \<in> set excluded_dirs. str_contains d (item_path item)))"

definition item_line :: "json \<Rightarrow> string" where
  "item_line item = (if item_is_tree item then icon_tree else icon_blob) @ item_path item"

text \<open>An item of the issues endpoint that stands for a pull request.\<close>

fun is_pr :: "json \<Rightarrow> bool" where
  "is_pr (JObj kvs) = (map_of kvs ''pull_request'' \<noteq> None)"
| "is_pr v = False"

text \<open>
  An issue or pull request as its endpoint documents it, as far as the functions read
  it: an object with \<open>number\<close>, \<open>title\<close>, \<open>state\<close>, \<open>created_at\<close> and \<open>html_url\<close>.
\<close>

fun entry_ok :: "json \<Rightarrow> bool" where
  "entry_ok (JObj kvs) =
     (map_of kvs ''number'' \<noteq> None \<and> map_of kvs ''title'' \<noteq> None
      \<and> map_of kvs ''state'' \<noteq> None \<and> map_of kvs ''created_at'' \<noteq> None
      \<and> map_of kvs ''html_url'' \<noteq> None)"
| "entry_ok v = False"

fun is_obj :: "json \<Rightarrow> bool" where
  "is_obj (JObj kvs) = True"
| "is_obj v = False"

text \<open>What \<open>entry_text\<close> yields on an item that has the five fields.\<close>

definition entry_block :: "runtime \<Rightarrow> json \<Rightarrow> string" where
  "entry_block rt item = (case entry_text rt item of Inr s \<Rightarrow> s | Inl e \<Rightarrow> [])"

text \<open>
  The 200 response \<open>get_repo_structure\<close> reads its tree from, when there is one: the answer
  for \<open>main\<close>, or else the answer for \<open>master\<close>.
\<close>

definition tree_response :: "RunContext \<Rightarrow> string \<Rightarrow> string \<Rightarrow> response option" where
  "tree_response ctx owner repo =
     (case client (deps ctx) (tree_request ctx owner repo ''main'') of
        Inl e \<Rightarrow> None
      | Inr r \<Rightarrow>
          (if status_code r = 200 then Some r
           else (case client (deps ctx) (tree_request ctx owner repo ''master'') of
                   Inl e \<Rightarrow> None
                 | Inr r' \<Rightarrow> (if status_code r' = 200 then Some r' else None))))"

fun is_str :: "json \<Rightarrow> bool" where
  "is_str (JStr s) = True"
| "is_str v = False"

fun returns :: "py_error + 'a \<Rightarrow> bool" where
  "returns (Inr v) = True"
| "returns (Inl e) = False"

definition has_keys :: "(string \<times> json) list \<Rightarrow> string list \<Rightarrow> bool" where
  "has_keys kvs ks = (\<forall>k \<in> set ks. map_of kvs k \<noteq> None)"

text \<open>
  A repository as the repository endpoint documents it, as far as \<open>get_repo_info\<close> reads
  it: an object with an integer \<open>size\<close> that the formatting accepts, an \<open>owner\<close> object with
  a \<open>login\<close>, the ten fields printed as they are, \<open>topics\<close> absent or a list of strings,
  and \<open>license\<close> absent, null or an object.
\<close>

fun repo_json_ok :: "runtime \<Rightarrow> json \<Rightarrow> bool" where
  "repo_json_ok rt (JObj kvs) =
     ((case map_of kvs ''size'' of Some (JInt n) \<Rightarrow> returns (fmt_size_mb rt n) | _ \<Rightarrow> False)
      \<and> (case map_of kvs ''owner'' of Some (JObj o_kvs) \<Rightarrow> map_of o_kvs ''login'' \<noteq> None | _ \<Rightarrow> False)
      \<and> has_keys kvs [''forks_count'', ''open_issues_count'', ''default_branch'', ''visibility'',
                      ''full_name'', ''description'', ''stargazers_count'', ''language'',
                      ''created_at'', ''updated_at'']
      \<and> (case map_of kvs ''topics'' of
            None \<Rightarrow> True | Some (JArr ts) \<Rightarrow> list_all is_str ts | _ \<Rightarrow> False)
      \<and> (case map_of kvs ''license'' of
            None \<Rightarrow> True | Some JNull \<Rightarrow> True | Some (JObj l) \<Rightarrow> True | _ \<Rightarrow> False))"
| "repo_json_ok rt v = False"

text \<open>
  A file, symlink or submodule as the contents endpoint documents it, as far as
  \<open>get_file_content\<close> reads it: an object; when its \<open>type\<close> is \<open>file\<close>, its \<open>content\<close> is a
  string that decodes.
\<close>

fun file_json_ok :: "runtime \<Rightarrow> json \<Rightarrow> bool" where
  "file_json_ok rt (JObj kvs) =
     (if map_of kvs ''type'' = Some (JStr ''file'')
      then (case map_of kvs ''content'' of Some (JStr c) \<Rightarrow> returns (b64decode_utf8 rt c) | _ \<Rightarrow> False)
      else True)"
| "file_json_ok rt v = False"

text \<open>A list of issues, of pull requests, and a tree, as their endpoints document them.\<close>

fun issues_json_ok :: "json \<Rightarrow> bool" where
  "issues_json_ok (JArr items) = list_all (\<lambda>i. is_obj i \<and> (is_pr i \<or> entry_ok i)) items"
| "issues_json_ok v = False"

fun pulls_json_ok :: "json \<Rightarrow> bool" where
  "pulls_json_ok (JArr items) = list_all entry_ok items"
| "pulls_json_ok v = False"

fun tree_items :: "json \<Rightarrow> json list" where
  "tree_items (JObj kvs) = (case map_of kvs ''tree'' of Some (JArr items) \<Rightarrow> items | _ \<Rightarrow> [])"
| "tree_items v = []"

fun tree_json_ok :: "json \<Rightarrow> bool" where
  "tree_json_ok (JObj kvs) =
     (case map_of kvs ''tree'' of Some (JArr items) \<Rightarrow> list_all tree_item_ok items | _ \<Rightarrow> False)"
| "tree_json_ok v = False"

text \<open>
  A message of \<open>request.history\<close> that the agent is given, and the agent message it
  becomes.
\<close>

definition kept_role :: "(string \<times> string) list \<Rightarrow> bool" where
  "kept_role msg = (map_of msg ''role'' = Some ''user'' \<or> map_of msg ''role'' = Some ''assistant'')"

definition content_of :: "(string \<times> string) list \<Rightarrow> string" where
  "content_of msg = (case map_of msg ''content'' of Some c \<Rightarrow> c | None \<Rightarrow> [])"

definition to_message :: "(string \<times> string) list \<Rightarrow> message" where
  "to_message msg =
     (if map_of msg ''role'' = Some ''user'' then ModelRequest [UserPromptPart (content_of msg)]
      else ModelResponse [TextPart (content_of msg)])"

text \<open>Every message has a \<open>role\<close>, and a \<open>content\<close> when its role is one the handler reads.\<close>

definition history_ok :: "(string \<times> string) list list \<Rightarrow> bool" where
  "history_ok h =
     list_all (\<lambda>msg. map_of msg ''role'' \<noteq> None
                     \<and> (kept_role msg \<longrightarrow> map_of msg ''content'' \<noteq> None)) h"

text \<open>
  The pattern read as a set of strings: somewhere in the URL stands \<open>github.com\<close>, a colon
  or slash, an owner and a repository (each non-empty and free of slashes) separated by
  a slash, and an optional \<open>.git\<close>, at the end of the string or before its final newline.
\<close>

definition url_matches :: "string \<Rightarrow> bool" where
  "url_matches s =
     (\<exists>pre sep owner repo sfx.
        s = pre @ ''github.com'' @ [sep] @ owner @ ''/'' @ repo @ sfx
        \<and> (sep = CHR '':'' \<or> sep = CHR ''/'')
        \<and> owner \<noteq> [] \<and> CHR ''/'' \<notin> set owner
        \<and> repo \<noteq> [] \<and> CHR ''/'' \<notin> set repo
        \<and> sfx \<in> {[], ''.git'', [CHR 0x0A], ''.git'' @ [CHR 0x0A]})"

section \<open>Concrete inputs\<close>

definition rt_demo :: runtime where
  "rt_demo = \<lparr>fmt_size_mb = (\<lambda>n. Inr (str_int (n div 1024) @ ''.0'')),
              b64decode_utf8 = (\<lambda>s. Inr ''print(1)''),
              py_repr = (\<lambda>v. ''[]'')\<rparr>"

definition ctx_of :: "(request \<Rightarrow> py_error + response) \<Rightarrow> RunContext" where
  "ctx_of c = \<lparr>deps = \<lparr>client = c, github_token = Some ''t0k''\<rparr>\<rparr>"

definition demo_url :: string where
  "demo_url = ''https://github.com/octocat/hello.git''"

definition resp_404 :: response where
  "resp_404 = \<lparr>status_code = 404, response_text = ''Not Found'',
               response_json = Some (JObj [(''message'', JStr ''Not Found'')])\<rparr>"

definition resp_ok :: "json \<Rightarrow> response" where
  "resp_ok v = \<lparr>status_code = 200, response_text = ''...'', response_json = Some v\<rparr>"

definition demo_tree :: json where
  "demo_tree = JObj [(''sha'', JStr ''abc''),
     (''tree'', JArr
        [JObj [(''path'', JStr ''src''), (''type'', JStr ''tree'')],
         JObj [(''path'', JStr ''node_modules/a.js''), (''type'', JStr ''blob'')],
         JObj [(''path'', JStr ''src/app.py''), (''type'', JStr ''blob'')]]),
     (''truncated'', JBool False)]"

definition empty_tree :: json where
  "empty_tree = JObj [(''sha'', JStr ''abc''), (''tree'', JArr []), (''truncated'', JBool False)]"

text \<open>A repository whose default branch is \<open>master\<close>: the tree of \<open>main\<close> is not found.\<close>

definition client_master :: "request \<Rightarrow> py_error + response" where
  "client_master req =
     (if url req = ''https://api.github.com/repos/octocat/hello/git/trees/main?recursive=1''
      then Inr resp_404 else Inr (resp_ok demo_tree))"

definition demo_issue :: "int \<Rightarrow> json" where
  "demo_issue n = JObj [(''number'', JInt n), (''title'', JStr ''Crash''), (''state'', JStr ''open''),
     (''created_at'', JStr ''2024-01-01T00:00:00Z''),
     (''html_url'', JStr ''https://github.com/octocat/hello/issues/1'')]"

definition demo_pr :: "int \<Rightarrow> json" where
  "demo_pr n = JObj [(''number'', JInt n), (''title'', JStr ''Fix''), (''state'', JStr ''open''),
     (''created_at'', JStr ''2024-01-02T00:00:00Z''),
     (''html_url'', JStr ''https://github.com/octocat/hello/pull/2''),
     (''pull_request'', JObj [(''url'', JStr ''u'')])]"

definition demo_repo :: json where
  "demo_repo = JObj [(''full_name'', JStr ''octocat/hello''),
     (''owner'', JObj [(''login'', JStr ''octocat'')]),
     (''description'', JNull), (''size'', JInt 2048), (''stargazers_count'', JInt 3),
     (''forks_count'', JInt 1), (''open_issues_count'', JInt 0), (''language'', JStr ''Python''),
     (''created_at'', JStr ''2024-01-01T00:00:00Z''), (''updated_at'', JStr ''2024-02-01T00:00:00Z''),
     (''default_branch'', JStr ''master''), (''visibility'', JStr ''public''),
     (''topics'', JArr [JStr ''cli'', JStr ''bot'']),
     (''license'', JObj [(''key'', JStr ''mit''), (''name'', JStr ''MIT License'')])]"

definition demo_file :: json where
  "demo_file = JObj [(''type'', JStr ''file''), (''encoding'', JStr ''base64''),
     (''content'', JStr ''cHJpbnQoMSk='')]"

definition demo_dir_entry :: json where
  "demo_dir_entry = JObj [(''type'', JStr ''symlink''), (''target'', JStr ''/etc'')]"

definition demo_listing :: json where
  "demo_listing = JArr [JObj [(''name'', JStr ''app.py''), (''path'', JStr ''src/app.py''),
                              (''type'', JStr ''file'')]]"

definition demo_agent :: agent where
  "demo_agent call =
     Inr \<lparr>data = ''It is a demo.'',
          new_messages =
            [ModelRequest [UserPromptPart (call_prompt call)],
             ModelResponse [\<lparr>part_kind = ''tool-call'', content = [], tool_call = None\<rparr>],
             ModelRequest [\<lparr>part_kind = ''tool-return'', content = ''ok'', tool_call = None\<rparr>],
             ModelResponse [TextPart ''It is a demo.'']]\<rparr>"

text \<open>A \<open>CLI\<close> that has had one turn already.\<close>

definition demo_cli :: CLI where
  "demo_cli = \<lparr>messages = [ModelRequest [UserPromptPart ''hi''], ModelResponse [TextPart ''hello'']],
               env_token = None, pos = 0, printed = [], calls = []\<rparr>"

definition demo_final :: CLI where
  "demo_final = \<lparr>messages =
             [ModelRequest [UserPromptPart ''hi''], ModelResponse [TextPart ''hello''],
              ModelRequest [UserPromptPart ''what is this repo?''],
              ModelResponse [\<lparr>part_kind = ''tool-call'', content = [], tool_call = None\<rparr>],
              ModelRequest [\<lparr>part_kind = ''tool-return'', content = ''ok'', tool_call = None\<rparr>],
              ModelResponse [TextPart ''It is a demo.'']],
           env_token = None, pos = 1, printed = [''It is a demo.''],
           calls = [\<lparr>call_prompt = ''what is this repo?'', call_token = None,
                     call_history = [ModelRequest [UserPromptPart ''hi''],
                                     ModelResponse [TextPart ''hello'']]\<rparr>]\<rparr>"

definition demo_stdin :: "nat \<Rightarrow> string option" where
  "demo_stdin n = (if n = 0 then Some ''what is this repo?''
                   else if n = 1 then Some ''  QUIT ''
                   else Some ''never read'')"

definition demo_history :: "(string \<times> string) list list" where
  "demo_history = [ [(''role'', ''user''), (''content'', ''hi'')],
                   [(''role'', ''system''), (''content'', ''be brief'')],
                   [(''role'', ''assistant''), (''content'', ''hello'')]]"

definition demo_request :: "string \<Rightarrow> ChatRequest" where
  "demo_request tok = \<lparr>chat_message = ''what is this repo?'', chat_github_token = None,
                        groq_token = tok, history = Some demo_history\<rparr>"

text \<open>Three bodies: no model token, a null one, and an empty one.\<close>

definition body_without_token :: json where
  "body_without_token = JObj [(''message'', JStr ''what is this repo?'')]"

definition body_null_token :: json where
  "body_null_token = JObj [(''message'', JStr ''what is this repo?''), (''groq_token'', JNull)]"

definition body_empty_token :: json where
  "body_empty_token = JObj [(''message'', JStr ''what is this repo?''), (''groq_token'', JStr [])]"

section \<open>Malformed URLs\<close>

lemma demo_url_match: "re_search demo_url = Some (''octocat'', ''hello'')"
  by (simp add: demo_url_def match_here_def match_repo_def tail_ok_def at_end_def)

lemma bad_url_no_match: "re_search ''https://gitlab.com/octocat/hello'' = None"
  by (simp add: match_here_def)

text \<open>
  \<open>re.search\<close> finds a match exactly in the strings of the pattern.
\<close>

lemma tail_ok_iff: "tail_ok s \<longleftrightarrow> s \<in> {[], ''.git'', [CHR 0x0A], ''.git'' @ [CHR 0x0A]}"
proof
  assume "tail_ok s"
  then consider "at_end s" | "prefix ''.git'' s \<and> at_end (drop 4 s)"
    by (auto simp: tail_ok_def)
  then show "s \<in> {[], ''.git'', [CHR 0x0A], ''.git'' @ [CHR 0x0A]}"
  proof cases
    case 1
    then show ?thesis by (auto simp: at_end_def)
  next
    case 2
    then obtain r where s: "s = ''.git'' @ r" by (auto simp: prefix_def)
    with 2 have "at_end r" by simp
    with s show ?thesis by (auto simp: at_end_def)
  qed
next
  assume "s \<in> {[], ''.git'', [CHR 0x0A], ''.git'' @ [CHR 0x0A]}"
  then show "tail_ok s" by (auto simp: tail_ok_def at_end_def)
qed

lemma repo_lazy_Some:
  "repo_lazy acc rest = Some r \<Longrightarrow>
   \<exists>x sfx. rest = x @ sfx \<and> r = acc @ x \<and> CHR ''/'' \<notin> set x \<and> tail_ok sfx"
proof (induction rest arbitrary: acc)
  case Nil
  then show ?case by (auto split: if_splits)
next
  case (Cons c cs)
  show ?case
  proof (cases "tail_ok (c # cs)")
    case True
    with Cons.prems have "r = acc" by simp
    with True show ?thesis by (intro exI [of _ "[]"] exI [of _ "c # cs"]) simp
  next
    case False
    with Cons.prems have c: "c \<noteq> CHR ''/''" and "repo_lazy (acc @ [c]) cs = Some r"
      by (auto split: if_splits)
    from Cons.IH [OF this(2)] obtain x sfx where "cs = x @ sfx" "r = (acc @ [c]) @ x"
      "CHR ''/'' \<notin> set x" "tail_ok sfx" by blast
    with c show ?thesis by (intro exI [of _ "c # x"] exI [of _ sfx]) simp
  qed
qed

lemma repo_lazy_complete:
  "CHR ''/'' \<notin> set x \<Longrightarrow> tail_ok sfx \<Longrightarrow> repo_lazy acc (x @ sfx) \<noteq> None"
proof (induction x arbitrary: acc)
  case Nil
  then show ?case by (cases sfx) simp_all
next
  case (Cons c x)
  then show ?case by auto
qed

lemma match_repo_Some:
  assumes "match_repo s = Some r"
  shows "\<exists>sfx. s = r @ sfx \<and> r \<noteq> [] \<and> CHR ''/'' \<notin> set r \<and> tail_ok sfx"
proof -
  from assms obtain c cs where s: "s = c # cs" and c: "c \<noteq> CHR ''/''"
    and "repo_lazy [c] cs = Some r"
    by (auto simp: match_repo_def split: list.splits if_splits)
  from repo_lazy_Some [OF this(3)] obtain x sfx where "cs = x @ sfx" "r = [c] @ x"
    "CHR ''/'' \<notin> set x" "tail_ok sfx" by blast
  with s c show ?thesis by (intro exI [of _ sfx]) simp
qed

lemma match_repo_complete:
  assumes "r \<noteq> []" and "CHR ''/'' \<notin> set r" and "tail_ok sfx"
  shows "match_repo (r @ sfx) \<noteq> None"
proof -
  from assms(1) obtain c x where r: "r = c # x" by (cases r) auto
  with assms(2) have "c \<noteq> CHR ''/''" "CHR ''/'' \<notin> set x" by auto
  with r repo_lazy_complete [OF this(2) assms(3), of "[c]"] show ?thesis
    by (simp add: match_repo_def)
qed

lemma match_here_Some:
  assumes "match_here t = Some (owner, repo)"
  shows "\<exists>sep sfx. t = ''github.com'' @ [sep] @ owner @ ''/'' @ repo @ sfx
           \<and> (sep = CHR '':'' \<or> sep = CHR ''/'')
           \<and> owner \<noteq> [] \<and> CHR ''/'' \<notin> set owner
           \<and> repo \<noteq> [] \<and> CHR ''/'' \<notin> set repo \<and> tail_ok sfx"
proof -
  from assms have p: "prefix ''github.com'' t"
    by (auto simp: match_here_def split: if_splits)
  then obtain u where t: "t = ''github.com'' @ u" by (auto simp: prefix_def)
  then have d: "drop 10 t = u" by simp
  from assms p d obtain sep r where u: "u = sep # r" and sep: "sep = CHR '':'' \<or> sep = CHR ''/''"
    by (auto simp: match_here_def split: if_splits list.splits)
  let ?o = "takeWhile (\<lambda>c. c \<noteq> CHR ''/'') r"
  let ?rest = "dropWhile (\<lambda>c. c \<noteq> CHR ''/'') r"
  from assms p d u sep have o: "?o \<noteq> []" "owner = ?o"
    by (auto simp: match_here_def Let_def split: if_splits list.splits)
  from assms p d u sep o obtain sl r' where rest: "?rest = sl # r'" and m: "match_repo r' = Some repo"
    by (auto simp: match_here_def Let_def split: if_splits list.splits)
  from rest have "sl = CHR ''/''"
    using hd_dropWhile [of "\<lambda>c. c \<noteq> CHR ''/''" r] by auto
  with rest have r: "r = ?o @ CHR ''/'' # r'"
    using takeWhile_dropWhile_id [of "\<lambda>c. c \<noteq> CHR ''/''" r] by simp
  have noslash: "CHR ''/'' \<notin> set ?o"
    using set_takeWhileD [of "CHR ''/''" "\<lambda>c. c \<noteq> CHR ''/''" r] by auto
  from match_repo_Some [OF m] obtain sfx where "r' = repo @ sfx" "repo \<noteq> []" "CHR ''/'' \<notin> set repo" "tail_ok sfx"
    by blast
  with t u r o sep noslash show ?thesis
    by (intro exI [of _ sep] exI [of _ sfx]) auto
qed

lemma match_here_complete:
  assumes "sep = CHR '':'' \<or> sep = CHR ''/''" and "owner \<noteq> []" and "CHR ''/'' \<notin> set owner"
    and "repo \<noteq> []" and "CHR ''/'' \<notin> set repo" and "tail_ok sfx"
  shows "match_here (''github.com'' @ [sep] @ owner @ ''/'' @ repo @ sfx) \<noteq> None"
proof -
  have ns: "\<forall>x \<in> set owner. x \<noteq> CHR ''/''"
    using assms(3) by auto
  have tw: "takeWhile (\<lambda>c. c \<noteq> CHR ''/'') (owner @ CHR ''/'' # repo @ sfx) = owner"
    using ns by simp
  have dw: "dropWhile (\<lambda>c. c \<noteq> CHR ''/'') (owner @ CHR ''/'' # repo @ sfx) = CHR ''/'' # repo @ sfx"
    using ns by simp
  from match_repo_complete [OF assms(4-6)] obtain r where "match_repo (repo @ sfx) = Some r" by auto
  with assms(1,2) tw dw show ?thesis
    by (auto simp: match_here_def Let_def)
qed

lemma re_search_Some:
  "re_search s = Some g \<Longrightarrow> \<exists>pre t. s = pre @ t \<and> match_here t = Some g"
proof (induction s)
  case Nil
  then show ?case by simp
next
  case (Cons c cs)
  show ?case
  proof (cases "match_here (c # cs)")
    case None
    with Cons.prems have "re_search cs = Some g" by simp
    from Cons.IH [OF this] obtain pre t where "cs = pre @ t" "match_here t = Some g" by blast
    then show ?thesis by (intro exI [of _ "c # pre"] exI [of _ t]) simp
  next
    case (Some g')
    with Cons.prems have "g' = g" by simp
    with Some show ?thesis by (intro exI [of _ "[]"] exI [of _ "c # cs"]) simp
  qed
qed

lemma re_search_complete:
  "match_here t \<noteq> None \<Longrightarrow> re_search (pre @ t) \<noteq> None"
proof (induction pre)
  case Nil
  then show ?case by (cases t) auto
next
  case (Cons c pre)
  then show ?case by (auto split: option.splits)
qed

lemma re_search_iff: "re_search s \<noteq> None \<longleftrightarrow> url_matches s"
proof
  assume "re_search s \<noteq> None"
  then obtain owner repo where "re_search s = Some (owner, repo)" by auto
  from re_search_Some [OF this] obtain pre t where s: "s = pre @ t"
    and "match_here t = Some (owner, repo)" by blast
  from match_here_Some [OF this(2)] s show "url_matches s"
    unfolding url_matches_def tail_ok_iff by blast
next
  assume "url_matches s"
  then obtain pre sep owner repo sfx where s: "s = pre @ ''github.com'' @ [sep] @ owner @ ''/'' @ repo @ sfx"
    and c: "sep = CHR '':'' \<or> sep = CHR ''/''" "owner \<noteq> []" "CHR ''/'' \<notin> set owner"
      "repo \<noteq> []" "CHR ''/'' \<notin> set repo"
    and "sfx \<in> {[], ''.git'', [CHR 0x0A], ''.git'' @ [CHR 0x0A]}"
    unfolding url_matches_def by blast
  then have "tail_ok sfx" by (simp only: tail_ok_iff)
  from re_search_complete [OF match_here_complete [OF c this], of pre] s
  show "re_search s \<noteq> None" by simp
qed

text \<open>
  Claim C1. When \<open>github_url\<close> does not match the pattern, each of the five query
  functions returns the string that reports an invalid URL: it returns a string, raises
  nothing, and its list of events is empty, so no HTTP request was issued.
\<close>

theorem C1_malformed_url:
  assumes "\<not> url_matches github_url"
  shows "get_repo_info rt ctx github_url = (Inr ''Invalid GitHub URL format.'', [])
       \<and> get_repo_structure rt ctx github_url = (Inr ''Invalid GitHub URL format'', [])
       \<and> get_file_content rt ctx github_url file_path = (Inr ''Invalid GitHub URL format'', [])
       \<and> get_issues rt ctx github_url state = (Inr ''Invalid GitHub URL format'', [])
       \<and> get_pull_requests rt ctx github_url state = (Inr ''Invalid GitHub URL format'', [])"
proof -
  from assms have "re_search github_url = None"
    using re_search_iff [of github_url] by blast
  then show ?thesis
    by (simp add: get_repo_info_def get_repo_structure_def get_file_content_def
          get_issues_def get_pull_requests_def)
qed

theorem C1_malformed_url_witness:
  "\<not> url_matches ''https://gitlab.com/octocat/hello''
   \<and> get_repo_info rt_demo (ctx_of client_master) ''https://gitlab.com/octocat/hello''
        = (Inr ''Invalid GitHub URL format.'', [])
   \<and> get_issues rt_demo (ctx_of client_master) ''https://gitlab.com/octocat/hello'' ''open''
        = (Inr ''Invalid GitHub URL format'', [])"
proof -
  have no: "\<not> url_matches ''https://gitlab.com/octocat/hello''"
    using re_search_iff [of "''https://gitlab.com/octocat/hello''"] bad_url_no_match by blast
  from C1_malformed_url [OF no, of rt_demo "ctx_of client_master" "''README.md''" "''open''"] no
  show ?thesis by simp
qed

section \<open>The chat endpoint without a model token\<close>

lemma chat_empty_token:
  assumes "groq_token request = []"
  shows "chat get_github_agent request = (Inl (HTTPException 400 ''Groq API token is required''), [])"
  using assms by (simp add: chat_def)

lemma validate_groq_token:
  assumes "validate_ChatRequest (JObj kvs) = Some request"
  shows "map_of kvs ''groq_token'' = Some (JStr (groq_token request))"
proof -
  from assms obtain gq where gq: "str_field (map_of kvs ''groq_token'') = Some gq"
    and "groq_token request = gq"
    by (auto split: option.splits)
  from gq have "map_of kvs ''groq_token'' = Some (JStr gq)"
    by (cases "(map_of kvs ''groq_token'')" rule: str_field.cases) simp_all
  with \<open>groq_token request = gq\<close> show ?thesis by simp
qed

lemma validate_absent_token:
  assumes "map_of kvs ''groq_token'' = None \<or> map_of kvs ''groq_token'' = Some JNull"
  shows "validate_ChatRequest (JObj kvs) = None"
  using assms by (auto split: option.splits)

text \<open>
  Claim C3, as stated, fails: a request whose body has no \<open>groq_token\<close> is answered with
  422 by the validation of the body, not with 400.
\<close>

theorem C3_counterexample:
  "map_of [(''message'', JStr ''what is this repo?'')] ''groq_token'' = None
   \<and> body_without_token = JObj [(''message'', JStr ''what is this repo?'')]
   \<and> fst (api_chat (\<lambda>key. demo_agent) body_without_token) = 422
   \<and> fst (api_chat (\<lambda>key. demo_agent) body_without_token) \<noteq> 400"
  by (simp add: api_chat_def body_without_token_def)

text \<open>
  Claim C3, amended. A request to \<open>POST /api/chat\<close> whose \<open>groq_token\<close> is the empty string,
  in a body that is valid otherwise, is answered with status 400 by the handler, which
  has not called the agent. A request whose \<open>groq_token\<close> is omitted or null is answered
  with status 422 by the validation of the body, and the handler does not run.
\<close>

theorem C3_token_status:
  "(validate_ChatRequest (JObj kvs) = Some request \<and> map_of kvs ''groq_token'' = Some (JStr [])
      \<longrightarrow> api_chat get_github_agent (JObj kvs) = (400, []))
   \<and> (map_of kvs ''groq_token'' = None \<or> map_of kvs ''groq_token'' = Some JNull
      \<longrightarrow> api_chat get_github_agent (JObj kvs) = (422, []))"
proof (intro conjI impI)
  assume a: "validate_ChatRequest (JObj kvs) = Some request \<and> map_of kvs ''groq_token'' = Some (JStr [])"
  with validate_groq_token [of kvs request] have "groq_token request = []" by simp
  from chat_empty_token [OF this, of get_github_agent] a
  show "api_chat get_github_agent (JObj kvs) = (400, [])"
    by (simp add: api_chat_def)
next
  assume "map_of kvs ''groq_token'' = None \<or> map_of kvs ''groq_token'' = Some JNull"
  from validate_absent_token [OF this]
  show "api_chat get_github_agent (JObj kvs) = (422, [])"
    by (simp add: api_chat_def)
qed

theorem C3_token_status_witness:
  "validate_ChatRequest body_empty_token
     = Some \<lparr>chat_message = ''what is this repo?'', chat_github_token = None,
             groq_token = [], history = Some []\<rparr>
   \<and> api_chat (\<lambda>key. demo_agent) body_empty_token = (400, [])
   \<and> api_chat (\<lambda>key. demo_agent) body_without_token = (422, [])
   \<and> api_chat (\<lambda>key. demo_agent) body_null_token = (422, [])"
  using C3_token_status [where kvs = "[(''message'', JStr ''what is this repo?''), (''groq_token'', JStr [])]"
      and request = "\<lparr>chat_message = ''what is this repo?'', chat_github_token = None,
             groq_token = [], history = Some []\<rparr>" and get_github_agent = "\<lambda>key. demo_agent"]
    C3_token_status [where kvs = "[(''message'', JStr ''what is this repo?'')]"
      and get_github_agent = "\<lambda>key. demo_agent"]
    C3_token_status [where kvs = "[(''message'', JStr ''what is this repo?''), (''groq_token'', JNull)]"
      and get_github_agent = "\<lambda>key. demo_agent"]
  by (simp add: body_empty_token_def body_without_token_def body_null_token_def)

section \<open>Responses that are not 200\<close>

lemma structure_main:
  assumes "re_search github_url = Some (owner, repo)"
    and "client (deps ctx) (tree_request ctx owner repo ''main'') = Inr r"
    and "status_code r = 200"
  shows "get_repo_structure rt ctx github_url
         = (structure_text rt r, [HttpGet (tree_request ctx owner repo ''main'')])"
  using assms by (simp add: get_repo_structure_def Let_def)

lemma structure_fallback:
  assumes "re_search github_url = Some (owner, repo)"
    and "client (deps ctx) (tree_request ctx owner repo ''main'') = Inr r"
    and "status_code r \<noteq> 200"
    and "client (deps ctx) (tree_request ctx owner repo ''master'') = Inr r'"
  shows "get_repo_structure rt ctx github_url
         = (if status_code r' \<noteq> 200
            then Inr (''Failed to get repository structure: '' @ response_text r')
            else structure_text rt r',
            [HttpGet (tree_request ctx owner repo ''main''),
             HttpGet (tree_request ctx owner repo ''master'')])"
  using assms by (simp add: get_repo_structure_def Let_def)

lemma client_master_main:
  "client (deps (ctx_of client_master)) (tree_request (ctx_of client_master) ''octocat'' ''hello'' ''main'') = Inr resp_404"
  by (simp add: ctx_of_def client_master_def tree_request_def)

lemma client_master_master:
  "client (deps (ctx_of client_master)) (tree_request (ctx_of client_master) ''octocat'' ''hello'' ''master'') = Inr (resp_ok demo_tree)"
  by (simp add: ctx_of_def client_master_def tree_request_def)

lemma resp_status [simp]: "status_code resp_404 = 404" "status_code (resp_ok v) = 200"
  "response_json (resp_ok v) = Some v" "response_text resp_404 = ''Not Found''"
  by (simp_all add: resp_404_def resp_ok_def)

lemma demo_tree_text: "structure_text rt (resp_ok demo_tree) = Inr (icon_tree @ ''src'' @ [CHR 0x0A] @ icon_blob @ ''src/app.py'')"
  by (simp add: structure_text_def json_of_def demo_tree_def bnd_def excluded_dirs_def tree_line_def)

lemma demo_structure:
  "get_repo_structure rt (ctx_of client_master) demo_url
   = (Inr (icon_tree @ ''src'' @ [CHR 0x0A] @ icon_blob @ ''src/app.py''),
      [HttpGet (tree_request (ctx_of client_master) ''octocat'' ''hello'' ''main''),
       HttpGet (tree_request (ctx_of client_master) ''octocat'' ''hello'' ''master'')])"
  using structure_fallback [OF demo_url_match client_master_main _ client_master_master, of rt]
  by (simp add: demo_tree_text)

text \<open>
  Claim C2, as stated, fails for \<open>get_repo_structure\<close>: the API answers the request for
  the tree of \<open>main\<close> with 404, the request for the tree of \<open>master\<close> succeeds, and the
  function returns the listing, not a string that begins with \<open>Failed to get\<close>.
\<close>

theorem C2_counterexample:
  "re_search demo_url = Some (''octocat'', ''hello'')
   \<and> client (deps (ctx_of client_master)) (tree_request (ctx_of client_master) ''octocat'' ''hello'' ''main'') = Inr resp_404
   \<and> status_code resp_404 \<noteq> 200
   \<and> fst (get_repo_structure rt_demo (ctx_of client_master) demo_url)
        = Inr (icon_tree @ ''src'' @ [CHR 0x0A] @ icon_blob @ ''src/app.py'')
   \<and> \<not> prefix ''Failed to get'' (icon_tree @ ''src'' @ [CHR 0x0A] @ icon_blob @ ''src/app.py'')"
  by (simp add: demo_url_match client_master_main demo_structure icon_tree_def)

text \<open>
  Claim C2, amended. For a URL that matches, \<open>get_repo_info\<close>, \<open>get_file_content\<close>,
  \<open>get_issues\<close> and \<open>get_pull_requests\<close> return \<open>Failed to get ...: \<close> followed by the
  response body whenever the response to their request has a status other than 200;
  \<open>get_repo_structure\<close> returns its failure string, with the body of the second response,
  when both the request for \<open>main\<close> and the request for \<open>master\<close> are answered with a
  status other than 200. The result is a string in each case, not an exception.
\<close>

theorem C2_failure_string:
  assumes "re_search github_url = Some (owner, repo)"
  shows "(client (deps ctx) (repo_request ctx owner repo) = Inr r \<and> status_code r \<noteq> 200
            \<longrightarrow> fst (get_repo_info rt ctx github_url)
                 = Inr (''Failed to get repository info: '' @ response_text r))
       \<and> (client (deps ctx) (contents_request ctx owner repo file_path) = Inr r \<and> status_code r \<noteq> 200
            \<longrightarrow> fst (get_file_content rt ctx github_url file_path)
                 = Inr (''Failed to get file content: '' @ response_text r))
       \<and> (client (deps ctx) (issues_request ctx owner repo state) = Inr r \<and> status_code r \<noteq> 200
            \<longrightarrow> fst (get_issues rt ctx github_url state)
                 = Inr (''Failed to get issues: '' @ response_text r))
       \<and> (client (deps ctx) (pulls_request ctx owner repo state) = Inr r \<and> status_code r \<noteq> 200
            \<longrightarrow> fst (get_pull_requests rt ctx github_url state)
                 = Inr (''Failed to get pull requests: '' @ response_text r))
       \<and> (client (deps ctx) (tree_request ctx owner repo ''main'') = Inr r \<and> status_code r \<noteq> 200
          \<and> client (deps ctx) (tree_request ctx owner repo ''master'') = Inr r' \<and> status_code r' \<noteq> 200
            \<longrightarrow> fst (get_repo_structure rt ctx github_url)
                 = Inr (''Failed to get repository structure: '' @ response_text r'))"
  using assms
  by (simp add: get_repo_info_def get_file_content_def get_issues_def get_pull_requests_def
        structure_fallback Let_def)

theorem C2_failure_string_witness:
  "re_search demo_url = Some (''octocat'', ''hello'')
   \<and> client (deps (ctx_of (\<lambda>req. Inr resp_404))) (repo_request (ctx_of (\<lambda>req. Inr resp_404)) ''octocat'' ''hello'') = Inr resp_404
   \<and> status_code resp_404 \<noteq> 200
   \<and> fst (get_repo_info rt_demo (ctx_of (\<lambda>req. Inr resp_404)) demo_url)
       = Inr ''Failed to get repository info: Not Found''
   \<and> fst (get_file_content rt_demo (ctx_of (\<lambda>req. Inr resp_404)) demo_url ''README.md'')
       = Inr ''Failed to get file content: Not Found''
   \<and> fst (get_issues rt_demo (ctx_of (\<lambda>req. Inr resp_404)) demo_url ''open'')
       = Inr ''Failed to get issues: Not Found''
   \<and> fst (get_pull_requests rt_demo (ctx_of (\<lambda>req. Inr resp_404)) demo_url ''open'')
       = Inr ''Failed to get pull requests: Not Found''
   \<and> fst (get_repo_structure rt_demo (ctx_of (\<lambda>req. Inr resp_404)) demo_url)
       = Inr ''Failed to get repository structure: Not Found''"
  using C2_failure_string [OF demo_url_match, of "ctx_of (\<lambda>req. Inr resp_404)" resp_404
          rt_demo "''README.md''" "''open''" resp_404]
  by (simp add: demo_url_match ctx_of_def)

section \<open>The requests a call issues\<close>

lemma info_events:
  "re_search github_url = Some (owner, repo) \<Longrightarrow>
   snd (get_repo_info rt ctx github_url) = [HttpGet (repo_request ctx owner repo)]"
  by (simp add: get_repo_info_def Let_def split: sum.splits)

lemma issues_events:
  "re_search github_url = Some (owner, repo) \<Longrightarrow>
   snd (get_issues rt ctx github_url state) = [HttpGet (issues_request ctx owner repo state)]"
  by (simp add: get_issues_def Let_def split: sum.splits)

lemma pulls_events:
  "re_search github_url = Some (owner, repo) \<Longrightarrow>
   snd (get_pull_requests rt ctx github_url state) = [HttpGet (pulls_request ctx owner repo state)]"
  by (simp add: get_pull_requests_def Let_def split: sum.splits)

lemma file_text_requests: "requests_of (snd (file_content_text rt file_path r)) = []"
  by (simp add: file_content_text_def split: sum.splits)

lemma file_events:
  "re_search github_url = Some (owner, repo) \<Longrightarrow>
   requests_of (snd (get_file_content rt ctx github_url file_path))
     = [contents_request ctx owner repo file_path]"
  by (simp add: get_file_content_def Let_def file_text_requests split: sum.splits prod.splits)
    (metis file_text_requests snd_conv)

lemma structure_events:
  "re_search github_url = Some (owner, repo) \<Longrightarrow>
   requests_of (snd (get_repo_structure rt ctx github_url))
     = (case client (deps ctx) (tree_request ctx owner repo ''main'') of
          Inl e \<Rightarrow> [tree_request ctx owner repo ''main'']
        | Inr r \<Rightarrow>
            if status_code r \<noteq> 200
            then [tree_request ctx owner repo ''main'', tree_request ctx owner repo ''master'']
            else [tree_request ctx owner repo ''main''])"
  by (simp add: get_repo_structure_def Let_def split: sum.splits)

text \<open>
  Claim C5, as stated, fails for \<open>get_repo_structure\<close>: when the tree of \<open>main\<close> is not
  found, one call issues two GET requests.
\<close>

theorem C5_counterexample:
  "re_search demo_url = Some (''octocat'', ''hello'')
   \<and> length (requests_of (snd (get_repo_structure rt_demo (ctx_of client_master) demo_url))) = 2"
  by (simp add: demo_url_match demo_structure)

text \<open>
  Claim C5, amended. For a URL that matches, \<open>get_repo_info\<close>, \<open>get_file_content\<close>,
  \<open>get_issues\<close> and \<open>get_pull_requests\<close> issue exactly one GET request, to their endpoint,
  whatever the client answers. \<open>get_repo_structure\<close> issues one GET request for the tree of
  \<open>main\<close>, and a second one for the tree of \<open>master\<close> exactly when the first is answered
  with a status other than 200.
\<close>

theorem C5_requests:
  assumes "re_search github_url = Some (owner, repo)"
  shows "requests_of (snd (get_repo_info rt ctx github_url)) = [repo_request ctx owner repo]
       \<and> requests_of (snd (get_file_content rt ctx github_url file_path))
           = [contents_request ctx owner repo file_path]
       \<and> requests_of (snd (get_issues rt ctx github_url state)) = [issues_request ctx owner repo state]
       \<and> requests_of (snd (get_pull_requests rt ctx github_url state))
           = [pulls_request ctx owner repo state]
       \<and> requests_of (snd (get_repo_structure rt ctx github_url))
           = (case client (deps ctx) (tree_request ctx owner repo ''main'') of
                Inl e \<Rightarrow> [tree_request ctx owner repo ''main'']
              | Inr r \<Rightarrow>
                  if status_code r \<noteq> 200
                  then [tree_request ctx owner repo ''main'', tree_request ctx owner repo ''master'']
                  else [tree_request ctx owner repo ''main''])"
  using assms
  by (simp add: info_events issues_events pulls_events file_events structure_events)

theorem C5_requests_witness:
  "re_search demo_url = Some (''octocat'', ''hello'')
   \<and> requests_of (snd (get_issues rt_demo (ctx_of client_master) demo_url ''open''))
       = [issues_request (ctx_of client_master) ''octocat'' ''hello'' ''open'']
   \<and> requests_of (snd (get_repo_structure rt_demo (ctx_of client_master) demo_url))
       = [tree_request (ctx_of client_master) ''octocat'' ''hello'' ''main'',
          tree_request (ctx_of client_master) ''octocat'' ''hello'' ''master'']"
  using C5_requests [OF demo_url_match, of rt_demo "ctx_of client_master" "''README.md''" "''open''"]
  by (simp add: demo_url_match client_master_main)

section \<open>The listing of \<open>get_repo_structure\<close>\<close>

lemma any_excluded_ok:
  assumes "tree_item_ok item"
  shows "any_excluded item ds = Inr (\<exists>d \<in> set ds. str_contains d (item_path item))"
  using assms
proof (induction ds)
  case Nil
  then show ?case by simp
next
  case (Cons d ds)
  then obtain kvs p where "item = JObj kvs" "map_of kvs ''path'' = Some (JStr p)"
    by (cases item) (auto split: option.splits json.splits)
  with Cons show ?case by (simp add: bnd_def)
qed

lemma tree_line_ok:
  assumes "tree_item_ok item"
  shows "tree_line rt item = Inr (item_line item)"
proof -
  from assms obtain kvs p t where "item = JObj kvs" "map_of kvs ''path'' = Some (JStr p)"
    "map_of kvs ''type'' = Some t"
    by (cases item) (auto split: option.splits json.splits)
  then show ?thesis by (simp add: tree_line_def item_line_def bnd_def)
qed

lemma build_structure_ok:
  assumes "\<forall>item \<in> set items. tree_item_ok item"
  shows "build_structure rt items acc = Inr (acc @ map item_line (filter listed items))"
  using assms
proof (induction items arbitrary: acc)
  case Nil
  then show ?case by simp
next
  case (Cons item items)
  then have ok: "tree_item_ok item" and rest: "\<forall>i \<in> set items. tree_item_ok i" by simp_all
  show ?case
    by (simp add: any_excluded_ok [OF ok] tree_line_ok [OF ok] Cons.IH [OF rest] bnd_def listed_def)
qed

lemma structure_text_ok:
  assumes "response_json r = Some (JObj kvs)"
    and "map_of kvs ''tree'' = Some (JArr items)"
    and "\<forall>item \<in> set items. tree_item_ok item"
  shows "structure_text rt r = Inr (join [CHR 0x0A] (map item_line (filter listed items)))"
  using assms by (simp add: structure_text_def json_of_def bnd_def build_structure_ok)

text \<open>
  Claim C8. When the tree request is answered with 200 (for \<open>main\<close>, or for \<open>master\<close> after
  \<open>main\<close> failed) and the body is a tree whose items each have a \<open>path\<close> string and a
  \<open>type\<close>, the string \<open>get_repo_structure\<close> returns is the lines of the items that are
  \<open>listed\<close> (the path holds none of \<open>.git/\<close>, \<open>node_modules/\<close>, \<open>__pycache__/\<close>), joined by
  newlines in the order of the response: one line per such item, none for the others.
\<close>

theorem C8_structure_lines:
  assumes "re_search github_url = Some (owner, repo)"
    and "(client (deps ctx) (tree_request ctx owner repo ''main'') = Inr r \<and> status_code r = 200)
       \<or> (client (deps ctx) (tree_request ctx owner repo ''main'') = Inr r0 \<and> status_code r0 \<noteq> 200
          \<and> client (deps ctx) (tree_request ctx owner repo ''master'') = Inr r \<and> status_code r = 200)"
    and "response_json r = Some (JObj kvs)"
    and "map_of kvs ''tree'' = Some (JArr items)"
    and "\<forall>item \<in> set items. tree_item_ok item"
  shows "fst (get_repo_structure rt ctx github_url)
         = Inr (join [CHR 0x0A] (map item_line (filter listed items)))"
proof -
  have listing: "structure_text rt r = Inr (join [CHR 0x0A] (map item_line (filter listed items)))"
    using assms(3-5) by (rule structure_text_ok)
  from assms(2) show ?thesis
  proof
    assume "client (deps ctx) (tree_request ctx owner repo ''main'') = Inr r \<and> status_code r = 200"
    then show ?thesis using assms(1) listing by (simp add: structure_main)
  next
    assume "client (deps ctx) (tree_request ctx owner repo ''main'') = Inr r0 \<and> status_code r0 \<noteq> 200
          \<and> client (deps ctx) (tree_request ctx owner repo ''master'') = Inr r \<and> status_code r = 200"
    then show ?thesis using assms(1) listing by (simp add: structure_fallback)
  qed
qed

lemma demo_tree_items_ok:
  "\<forall>item \<in> set [JObj [(''path'', JStr ''src''), (''type'', JStr ''tree'')],
         JObj [(''path'', JStr ''node_modules/a.js''), (''type'', JStr ''blob'')],
         JObj [(''path'', JStr ''src/app.py''), (''type'', JStr ''blob'')]]. tree_item_ok item"
  by simp

theorem C8_structure_lines_witness:
  "re_search demo_url = Some (''octocat'', ''hello'')
   \<and> status_code resp_404 \<noteq> 200 \<and> status_code (resp_ok demo_tree) = 200
   \<and> fst (get_repo_structure rt_demo (ctx_of client_master) demo_url)
       = Inr (icon_tree @ ''src'' @ [CHR 0x0A] @ icon_blob @ ''src/app.py'')"
  using C8_structure_lines [OF demo_url_match, of "ctx_of client_master" "resp_ok demo_tree" resp_404
      "[(''sha'', JStr ''abc''),
        (''tree'', JArr
          [JObj [(''path'', JStr ''src''), (''type'', JStr ''tree'')],
           JObj [(''path'', JStr ''node_modules/a.js''), (''type'', JStr ''blob'')],
           JObj [(''path'', JStr ''src/app.py''), (''type'', JStr ''blob'')]]),
        (''truncated'', JBool False)]"
      "[JObj [(''path'', JStr ''src''), (''type'', JStr ''tree'')],
        JObj [(''path'', JStr ''node_modules/a.js''), (''type'', JStr ''blob'')],
        JObj [(''path'', JStr ''src/app.py''), (''type'', JStr ''blob'')]]" rt_demo]
    client_master_main client_master_master demo_tree_items_ok
  by (simp add: demo_url_match demo_tree_def listed_def excluded_dirs_def item_line_def)

section \<open>Pull requests among the issues\<close>

lemma py_in_pr: "is_obj item \<Longrightarrow> py_in ''pull_request'' item = Inr (is_pr item)"
  by (cases item) simp_all

lemma entry_text_ok: "entry_ok item \<Longrightarrow> entry_text rt item = Inr (entry_block rt item)"
  by (cases item) (auto simp: entry_text_def entry_block_def bnd_def)

lemma collect_issues_ok:
  assumes "\<forall>i \<in> set items. is_obj i \<and> (\<not> is_pr i \<longrightarrow> entry_ok i)"
  shows "collect_issues rt items acc
         = Inr (acc @ map (entry_block rt) (filter (\<lambda>i. \<not> is_pr i) items))"
  using assms
proof (induction items arbitrary: acc)
  case Nil
  then show ?case by simp
next
  case (Cons i items)
  then show ?case by (simp add: py_in_pr entry_text_ok bnd_def)
qed

lemma issues_text_ok:
  assumes "response_json r = Some (JArr items)" and "items \<noteq> []"
    and "\<forall>i \<in> set items. is_obj i \<and> (\<not> is_pr i \<longrightarrow> entry_ok i)"
  shows "issues_text rt state r
         = Inr (if filter (\<lambda>i. \<not> is_pr i) items = []
                then ''No '' @ state @ '' issues found (excluding PRs).''
                else join [CHR 0x0A] (map (entry_block rt) (filter (\<lambda>i. \<not> is_pr i) items)))"
  using assms by (simp add: issues_text_def json_of_def bnd_def collect_issues_ok)

text \<open>
  Claim C9. When the issues request is answered with 200 and a non-empty list of objects,
  the output of \<open>get_issues\<close> holds the blocks of the items without a \<open>pull_request\<close> key
  and of no other item; when every item has that key, it is the string
  \<open>No {state} issues found (excluding PRs).\<close> for the given state.
\<close>

theorem C9_issues_skip_prs:
  assumes "re_search github_url = Some (owner, repo)"
    and "client (deps ctx) (issues_request ctx owner repo state) = Inr r"
    and "status_code r = 200"
    and "response_json r = Some (JArr items)" and "items \<noteq> []"
    and "\<forall>i \<in> set items. is_obj i \<and> (\<not> is_pr i \<longrightarrow> entry_ok i)"
  shows "fst (get_issues rt ctx github_url state)
         = Inr (if filter (\<lambda>i. \<not> is_pr i) items = []
                then ''No '' @ state @ '' issues found (excluding PRs).''
                else join [CHR 0x0A] (map (entry_block rt) (filter (\<lambda>i. \<not> is_pr i) items)))"
  using assms(1-3) issues_text_ok [OF assms(4-6)]
  by (simp add: get_issues_def Let_def)

theorem C9_issues_skip_prs_witness:
  "re_search demo_url = Some (''octocat'', ''hello'')
   \<and> fst (get_issues rt_demo (ctx_of (\<lambda>req. Inr (resp_ok (JArr [demo_pr 2, demo_pr 3])))) demo_url ''closed'')
       = Inr ''No closed issues found (excluding PRs).''
   \<and> fst (get_issues rt_demo (ctx_of (\<lambda>req. Inr (resp_ok (JArr [demo_pr 2, demo_issue 1])))) demo_url ''open'')
       = Inr (entry_block rt_demo (demo_issue 1))"
  using C9_issues_skip_prs [OF demo_url_match, of "ctx_of (\<lambda>req. Inr (resp_ok (JArr [demo_pr 2, demo_pr 3])))"
      "''closed''" "resp_ok (JArr [demo_pr 2, demo_pr 3])" "[demo_pr 2, demo_pr 3]" rt_demo]
    C9_issues_skip_prs [OF demo_url_match, of "ctx_of (\<lambda>req. Inr (resp_ok (JArr [demo_pr 2, demo_issue 1])))"
      "''open''" "resp_ok (JArr [demo_pr 2, demo_issue 1])" "[demo_pr 2, demo_issue 1]" rt_demo]
  by (simp add: demo_url_match ctx_of_def demo_pr_def demo_issue_def)

section \<open>Summaries for 200 responses\<close>

lemma returns_iff: "returns m \<longleftrightarrow> (\<exists>v. m = Inr v)"
  by (cases m) simp_all

lemma all_strs_ok: "list_all is_str ts \<Longrightarrow> \<exists>ss. all_strs ts = Inr ss"
proof (induction ts)
  case Nil
  then show ?case by simp
next
  case (Cons t ts)
  then obtain s where "t = JStr s" by (cases t) simp_all
  with Cons show ?case by (auto simp: bnd_def)
qed

lemma topics_text_ok:
  assumes "case map_of kvs ''topics'' of None \<Rightarrow> True | Some (JArr ts) \<Rightarrow> list_all is_str ts | _ \<Rightarrow> False"
  shows "\<exists>s. topics_text (JObj kvs) = Inr s"
proof (cases "map_of kvs ''topics''")
  case None
  then show ?thesis by (simp add: topics_text_def bnd_def)
next
  case (Some v)
  with assms obtain ts where v: "v = JArr ts" and "list_all is_str ts"
    by (cases v) simp_all
  then obtain ss where "all_strs ts = Inr ss" using all_strs_ok by blast
  with Some v show ?thesis by (simp add: topics_text_def py_join_def bnd_def)
qed

lemma license_text_ok:
  assumes "case map_of kvs ''license'' of None \<Rightarrow> True | Some JNull \<Rightarrow> True | Some (JObj l) \<Rightarrow> True | _ \<Rightarrow> False"
  shows "\<exists>v. license_text (JObj kvs) = Inr v"
proof (cases "map_of kvs ''license''")
  case None
  then show ?thesis by (simp add: license_text_def bnd_def)
next
  case (Some v)
  with assms consider "v = JNull" | l where "v = JObj l"
    by (cases v) simp_all
  then show ?thesis
  proof cases
    case 1
    with Some show ?thesis by (simp add: license_text_def bnd_def)
  next
    case 2
    with Some show ?thesis by (simp add: license_text_def bnd_def split: option.splits)
  qed
qed

lemma repo_info_text_ok:
  assumes "response_json r = Some d" and "repo_json_ok rt d"
  shows "\<exists>s. repo_info_text rt owner repo r = Inr s \<and> s \<noteq> []"
proof -
  from assms(2) obtain kvs where d: "d = JObj kvs" by (cases d) simp_all
  from assms(2) d obtain n t where size: "map_of kvs ''size'' = Some (JInt n)" "fmt_size_mb rt n = Inr t"
    by (auto simp: returns_iff split: option.splits json.splits)
  from assms(2) d obtain o_kvs login where own: "map_of kvs ''owner'' = Some (JObj o_kvs)"
      "map_of o_kvs ''login'' = Some login"
    by (auto split: option.splits json.splits)
  from assms(2) d have keys: "has_keys kvs [''forks_count'', ''open_issues_count'', ''default_branch'', ''visibility'',
                      ''full_name'', ''description'', ''stargazers_count'', ''language'',
                      ''created_at'', ''updated_at'']" by simp
  then obtain v1 v2 v3 v4 v5 v6 v7 v8 v9 v10 where vs:
    "map_of kvs ''forks_count'' = Some v1" "map_of kvs ''open_issues_count'' = Some v2"
    "map_of kvs ''default_branch'' = Some v3" "map_of kvs ''visibility'' = Some v4"
    "map_of kvs ''full_name'' = Some v5" "map_of kvs ''description'' = Some v6"
    "map_of kvs ''stargazers_count'' = Some v7" "map_of kvs ''language'' = Some v8"
    "map_of kvs ''created_at'' = Some v9" "map_of kvs ''updated_at'' = Some v10"
    unfolding has_keys_def by fastforce
  from assms(2) d obtain tp where tp: "topics_text (JObj kvs) = Inr tp"
    using topics_text_ok by auto
  from assms(2) d obtain li where li: "license_text (JObj kvs) = Inr li"
    using license_text_ok by auto
  show ?thesis
    using assms(1) d size own vs tp li
    by (simp add: repo_info_text_def json_of_def bnd_def)
qed

lemma file_content_text_ok:
  assumes "response_json r = Some d" and "file_json_ok rt d"
  shows "\<exists>s. fst (file_content_text rt file_path r) = Inr s \<and> s \<noteq> []"
proof -
  from assms(2) obtain kvs where d: "d = JObj kvs" by (cases d) simp_all
  show ?thesis
  proof (cases "map_of kvs ''type'' = Some (JStr ''file'')")
    case True
    with assms(2) d obtain c t where "map_of kvs ''content'' = Some (JStr c)" "b64decode_utf8 rt c = Inr t"
      by (auto simp: returns_iff split: option.splits json.splits)
    with True assms(1) d show ?thesis
      by (simp add: file_content_text_def json_of_def bnd_def)
  next
    case False
    with assms(1) d show ?thesis
      by (simp add: file_content_text_def json_of_def split: option.splits)
  qed
qed

lemma join_nonempty: "xs \<noteq> [] \<Longrightarrow> \<forall>x \<in> set xs. x \<noteq> [] \<Longrightarrow> join sep xs \<noteq> []"
  by (induction sep xs rule: join.induct) simp_all

lemma join_empty_iff: "\<forall>x \<in> set xs. x \<noteq> [] \<Longrightarrow> join sep xs = [] \<longleftrightarrow> xs = []"
  using join_nonempty by (cases xs) auto

lemma entry_block_nonempty: "entry_ok item \<Longrightarrow> entry_block rt item \<noteq> []"
  by (cases item) (auto simp: entry_text_def entry_block_def bnd_def)

lemma issues_text_nonempty:
  assumes "response_json r = Some d" and "issues_json_ok d"
  shows "\<exists>s. issues_text rt state r = Inr s \<and> s \<noteq> []"
proof -
  from assms(2) obtain items where d: "d = JArr items" by (cases d) simp_all
  show ?thesis
  proof (cases "items = []")
    case True
    with assms(1) d show ?thesis by (simp add: issues_text_def json_of_def bnd_def)
  next
    case False
    from assms(2) d have ok: "\<forall>i \<in> set items. is_obj i \<and> (\<not> is_pr i \<longrightarrow> entry_ok i)"
      by (auto simp: list_all_iff)
    then have "\<forall>x \<in> set (map (entry_block rt) (filter (\<lambda>i. \<not> is_pr i) items)). x \<noteq> []"
      by (auto simp: entry_block_nonempty)
    then show ?thesis
      using issues_text_ok [OF _ False ok, of r rt state] assms(1) d
      by (auto simp: join_empty_iff simp del: set_map)
  qed
qed

lemma collect_prs_ok:
  assumes "\<forall>i \<in> set items. entry_ok i"
  shows "collect_prs rt items acc = Inr (acc @ map (entry_block rt) items)"
  using assms by (induction items arbitrary: acc) (simp_all add: entry_text_ok bnd_def)

lemma prs_text_nonempty:
  assumes "response_json r = Some d" and "pulls_json_ok d"
  shows "\<exists>s. prs_text rt state r = Inr s \<and> s \<noteq> []"
proof -
  from assms(2) obtain items where d: "d = JArr items" by (cases d) simp_all
  show ?thesis
  proof (cases "items = []")
    case True
    with assms(1) d show ?thesis by (simp add: prs_text_def json_of_def bnd_def)
  next
    case False
    from assms(2) d have ok: "\<forall>i \<in> set items. entry_ok i"
      by (auto simp: list_all_iff)
    then have "\<forall>x \<in> set (map (entry_block rt) items). x \<noteq> []"
      by (auto simp: entry_block_nonempty)
    then have "join [CHR 0x0A] (map (entry_block rt) items) \<noteq> []"
      using False by (simp add: join_empty_iff del: set_map)
    then show ?thesis
      using assms(1) d False by (simp add: prs_text_def json_of_def bnd_def collect_prs_ok [OF ok])
  qed
qed

lemma item_line_nonempty: "item_line item \<noteq> []"
  by (simp add: item_line_def icon_tree_def icon_blob_def)

lemma structure_text_nonempty:
  assumes "response_json r = Some d" and "tree_json_ok d"
  shows "\<exists>s. structure_text rt r = Inr s \<and> (s \<noteq> [] \<longleftrightarrow> (\<exists>item \<in> set (tree_items d). listed item))"
proof -
  from assms(2) obtain kvs where d: "d = JObj kvs" by (cases d) simp_all
  with assms(2) obtain items where t: "map_of kvs ''tree'' = Some (JArr items)"
      and ok: "\<forall>item \<in> set items. tree_item_ok item"
    by (auto simp: list_all_iff split: option.splits json.splits)
  have "\<forall>x \<in> set (map item_line (filter listed items)). x \<noteq> []"
    by (simp add: item_line_nonempty)
  then have "join [CHR 0x0A] (map item_line (filter listed items)) = [] \<longleftrightarrow> filter listed items = []"
    by (simp add: join_empty_iff del: set_map)
  then show ?thesis
    using structure_text_ok [OF _ t ok, of r rt] assms(1) d t
    by (auto simp: filter_empty_conv)
qed

lemma structure_via_response:
  assumes "re_search github_url = Some (owner, repo)" and "tree_response ctx owner repo = Some r"
  shows "fst (get_repo_structure rt ctx github_url) = structure_text rt r"
  using assms
  by (auto simp: tree_response_def get_repo_structure_def Let_def split: sum.splits if_splits)

text \<open>
  Claim C4, as stated, fails for \<open>get_repo_structure\<close>: a 200 response whose tree has no
  items has the documented shape, and the function returns the empty string.
\<close>

theorem C4_counterexample:
  "re_search demo_url = Some (''octocat'', ''hello'')
   \<and> status_code (resp_ok empty_tree) = 200
   \<and> tree_json_ok empty_tree
   \<and> fst (get_repo_structure rt_demo (ctx_of (\<lambda>req. Inr (resp_ok empty_tree))) demo_url) = Inr []"
  by (simp add: demo_url_match get_repo_structure_def ctx_of_def Let_def structure_text_def
        json_of_def bnd_def empty_tree_def)

text \<open>
  Claim C4, amended. For a URL that matches and a 200 response whose JSON has the shape
  the function reads, \<open>get_repo_info\<close>, \<open>get_issues\<close> and \<open>get_pull_requests\<close> return a
  non-empty string; \<open>get_file_content\<close> returns a non-empty string when the body is an
  object (a file whose content decodes, or an entry of another type); and
  \<open>get_repo_structure\<close> returns a string that is non-empty exactly when the tree has an
  item that is listed.
\<close>

theorem C4_summary_nonempty:
  assumes "re_search github_url = Some (owner, repo)"
    and "response_json r = Some d" and "status_code r = 200"
  shows "(client (deps ctx) (repo_request ctx owner repo) = Inr r \<and> repo_json_ok rt d
            \<longrightarrow> (\<exists>s. fst (get_repo_info rt ctx github_url) = Inr s \<and> s \<noteq> []))
       \<and> (client (deps ctx) (contents_request ctx owner repo file_path) = Inr r \<and> file_json_ok rt d
            \<longrightarrow> (\<exists>s. fst (get_file_content rt ctx github_url file_path) = Inr s \<and> s \<noteq> []))
       \<and> (client (deps ctx) (issues_request ctx owner repo state) = Inr r \<and> issues_json_ok d
            \<longrightarrow> (\<exists>s. fst (get_issues rt ctx github_url state) = Inr s \<and> s \<noteq> []))
       \<and> (client (deps ctx) (pulls_request ctx owner repo state) = Inr r \<and> pulls_json_ok d
            \<longrightarrow> (\<exists>s. fst (get_pull_requests rt ctx github_url state) = Inr s \<and> s \<noteq> []))
       \<and> (tree_response ctx owner repo = Some r \<and> tree_json_ok d
            \<longrightarrow> (\<exists>s. fst (get_repo_structure rt ctx github_url) = Inr s
                     \<and> (s \<noteq> [] \<longleftrightarrow> (\<exists>item \<in> set (tree_items d). listed item))))"
proof (intro conjI impI)
  assume "client (deps ctx) (repo_request ctx owner repo) = Inr r \<and> repo_json_ok rt d"
  then show "\<exists>s. fst (get_repo_info rt ctx github_url) = Inr s \<and> s \<noteq> []"
    using assms repo_info_text_ok [OF assms(2), of rt owner repo]
    by (simp add: get_repo_info_def Let_def)
next
  assume "client (deps ctx) (contents_request ctx owner repo file_path) = Inr r \<and> file_json_ok rt d"
  then show "\<exists>s. fst (get_file_content rt ctx github_url file_path) = Inr s \<and> s \<noteq> []"
    using assms file_content_text_ok [OF assms(2), of rt file_path]
    by (simp add: get_file_content_def Let_def case_prod_beta)
next
  assume "client (deps ctx) (issues_request ctx owner repo state) = Inr r \<and> issues_json_ok d"
  then show "\<exists>s. fst (get_issues rt ctx github_url state) = Inr s \<and> s \<noteq> []"
    using assms issues_text_nonempty [OF assms(2), of rt state]
    by (simp add: get_issues_def Let_def)
next
  assume "client (deps ctx) (pulls_request ctx owner repo state) = Inr r \<and> pulls_json_ok d"
  then show "\<exists>s. fst (get_pull_requests rt ctx github_url state) = Inr s \<and> s \<noteq> []"
    using assms prs_text_nonempty [OF assms(2), of rt state]
    by (simp add: get_pull_requests_def Let_def)
next
  assume "tree_response ctx owner repo = Some r \<and> tree_json_ok d"
  then show "\<exists>s. fst (get_repo_structure rt ctx github_url) = Inr s
                     \<and> (s \<noteq> [] \<longleftrightarrow> (\<exists>item \<in> set (tree_items d). listed item))"
    using structure_via_response [OF assms(1), of ctx r rt] structure_text_nonempty [OF assms(2), of rt]
    by simp
qed

lemma tree_response_demo:
  "tree_response (ctx_of client_master) ''octocat'' ''hello'' = Some (resp_ok demo_tree)"
  by (simp add: tree_response_def client_master_main client_master_master)

lemma demo_json_ok:
  "repo_json_ok rt_demo demo_repo" "file_json_ok rt_demo demo_file"
  "issues_json_ok (JArr [demo_pr 2, demo_issue 1])" "pulls_json_ok (JArr [demo_pr 2])"
  "tree_json_ok demo_tree"
  by (simp_all add: demo_repo_def rt_demo_def has_keys_def demo_file_def demo_pr_def
        demo_issue_def demo_tree_def)

theorem C4_summary_nonempty_witness:
  "re_search demo_url = Some (''octocat'', ''hello'')
   \<and> repo_json_ok rt_demo demo_repo
   \<and> (\<exists>s. fst (get_repo_info rt_demo (ctx_of (\<lambda>req. Inr (resp_ok demo_repo))) demo_url) = Inr s \<and> s \<noteq> [])
   \<and> file_json_ok rt_demo demo_file
   \<and> (\<exists>s. fst (get_file_content rt_demo (ctx_of (\<lambda>req. Inr (resp_ok demo_file))) demo_url ''a.py'') = Inr s
          \<and> s \<noteq> [])
   \<and> issues_json_ok (JArr [demo_pr 2, demo_issue 1])
   \<and> (\<exists>s. fst (get_issues rt_demo (ctx_of (\<lambda>req. Inr (resp_ok (JArr [demo_pr 2, demo_issue 1]))))
                 demo_url ''open'') = Inr s \<and> s \<noteq> [])
   \<and> pulls_json_ok (JArr [demo_pr 2])
   \<and> (\<exists>s. fst (get_pull_requests rt_demo (ctx_of (\<lambda>req. Inr (resp_ok (JArr [demo_pr 2]))))
                 demo_url ''open'') = Inr s \<and> s \<noteq> [])
   \<and> tree_response (ctx_of client_master) ''octocat'' ''hello'' = Some (resp_ok demo_tree)
   \<and> tree_json_ok demo_tree
   \<and> (\<exists>s. fst (get_repo_structure rt_demo (ctx_of client_master) demo_url) = Inr s \<and> s \<noteq> [])"
proof -
  have ex: "\<exists>item \<in> set (tree_items demo_tree). listed item"
    by (simp add: demo_tree_def listed_def excluded_dirs_def)
  show ?thesis
    using C4_summary_nonempty [where github_url = demo_url and owner = "''octocat''" and repo = "''hello''"
        and r = "resp_ok demo_repo" and d = demo_repo and rt = rt_demo
        and ctx = "ctx_of (\<lambda>req. Inr (resp_ok demo_repo))"]
      C4_summary_nonempty [where github_url = demo_url and owner = "''octocat''" and repo = "''hello''"
        and r = "resp_ok demo_file" and d = demo_file and rt = rt_demo and file_path = "''a.py''"
        and ctx = "ctx_of (\<lambda>req. Inr (resp_ok demo_file))"]
      C4_summary_nonempty [where github_url = demo_url and owner = "''octocat''" and repo = "''hello''"
        and r = "resp_ok (JArr [demo_pr 2, demo_issue 1])" and d = "JArr [demo_pr 2, demo_issue 1]"
        and rt = rt_demo and state = "''open''"
        and ctx = "ctx_of (\<lambda>req. Inr (resp_ok (JArr [demo_pr 2, demo_issue 1])))"]
      C4_summary_nonempty [where github_url = demo_url and owner = "''octocat''" and repo = "''hello''"
        and r = "resp_ok (JArr [demo_pr 2])" and d = "JArr [demo_pr 2]"
        and rt = rt_demo and state = "''open''"
        and ctx = "ctx_of (\<lambda>req. Inr (resp_ok (JArr [demo_pr 2])))"]
      C4_summary_nonempty [where github_url = demo_url and owner = "''octocat''" and repo = "''hello''"
        and r = "resp_ok demo_tree" and d = demo_tree and rt = rt_demo
        and ctx = "ctx_of client_master"]
      demo_json_ok tree_response_demo ex
    by (simp add: demo_url_match ctx_of_def)
qed

section \<open>Paths that are not files\<close>

lemma file_text_not_file:
  assumes "response_json r = Some (JObj kvs)" and "map_of kvs ''type'' \<noteq> Some (JStr ''file'')"
  shows "file_content_text rt file_path r = (Inr ''The path does not point to a file'', [])"
  using assms by (simp add: file_content_text_def json_of_def split: option.splits)

lemma not_a_file_object:
  assumes "re_search github_url = Some (owner, repo)"
    and "client (deps ctx) (contents_request ctx owner repo file_path) = Inr r"
    and "status_code r = 200"
    and "response_json r = Some (JObj kvs)"
    and "map_of kvs ''type'' \<noteq> Some (JStr ''file'')"
  shows "get_file_content rt ctx github_url file_path
         = (Inr ''The path does not point to a file'',
            [HttpGet (contents_request ctx owner repo file_path)])"
  using assms by (simp add: get_file_content_def Let_def file_text_not_file)

text \<open>
  Claim C10. The claim holds of every 200 response whose body is an object
  (\<open>not_a_file_object\<close>). The code departs from it on the answer the contents endpoint
  gives for a directory, a JSON array: it has no \<open>type\<close> field, and \<open>data.get\<close> raises
  \<open>AttributeError\<close> where the claim has the function return
  \<open>The path does not point to a file\<close>.
\<close>

theorem C10_directory_listing_raises:
  "re_search demo_url = Some (''octocat'', ''hello'')
   \<and> status_code (resp_ok demo_listing) = 200
   \<and> response_json (resp_ok demo_listing) = Some demo_listing
   \<and> get_file_content rt_demo (ctx_of (\<lambda>req. Inr (resp_ok demo_listing))) demo_url ''src''
       = (Inl AttributeError,
          [HttpGet (contents_request (ctx_of (\<lambda>req. Inr (resp_ok demo_listing))) ''octocat'' ''hello'' ''src'')])"
  by (simp add: demo_url_match get_file_content_def ctx_of_def Let_def file_content_text_def
        json_of_def demo_listing_def)

section \<open>The quit sentinel\<close>

lemma chat_loop_quit:
  assumes "stdin (pos self) = Some line" and "is_quit line"
  shows "chat_loop github_agent stdin self = Some (None, self\<lparr>pos := Suc (pos self)\<rparr>)"
  using assms by (subst chat_loop.simps) (simp add: is_quit_def Let_def)

lemma chat_loop_step:
  assumes "stdin (pos self) = Some line" and "\<not> is_quit line"
    and "turn github_agent (strip line) (self\<lparr>pos := Suc (pos self)\<rparr>) = (None, self2)"
  shows "chat_loop github_agent stdin self = chat_loop github_agent stdin self2"
  using assms by (subst chat_loop.simps) (simp add: is_quit_def Let_def)

lemma turn_pos: "pos (snd (turn github_agent u self)) = pos self"
  by (simp add: turn_def Let_def split: sum.splits)

lemma turn_prompts:
  "map call_prompt (calls (snd (turn github_agent u self))) = map call_prompt (calls self) @ [u]"
  by (simp add: turn_def Let_def split: sum.splits)

text \<open>
  Claim C6. Whatever standard input holds, once the loop has passed the lines \<open>ls\<close>
  (none of them the sentinel, no run of the agent raising) and the next line read is the
  sentinel, that is \<open>quit\<close> after \<open>strip\<close> and \<open>lower\<close>, the loop returns at once through
  \<open>break\<close>: it has read one line more, and the agent was run once for each line of \<open>ls\<close>
  and not for the sentinel. Nothing after the sentinel is read.
\<close>

theorem C6_quit_ends_loop:
  assumes "\<forall>i < length ls. stdin (pos self + i) = Some (ls ! i) \<and> \<not> is_quit (ls ! i)"
    and "run_lines github_agent ls self = Some self'"
    and "stdin (pos self + length ls) = Some line" and "is_quit line"
  shows "chat_loop github_agent stdin self = Some (None, self'\<lparr>pos := Suc (pos self')\<rparr>)
       \<and> pos self' = pos self + length ls
       \<and> map call_prompt (calls self') = map call_prompt (calls self) @ map strip ls"
  using assms
proof (induction ls arbitrary: self)
  case Nil
  then show ?case by (simp add: chat_loop_quit)
next
  case (Cons l ls)
  from Cons.prems(1) have l: "stdin (pos self) = Some l" "\<not> is_quit l"
    by force+
  from Cons.prems(2) obtain self2 where
    t: "turn github_agent (strip l) (self\<lparr>pos := Suc (pos self)\<rparr>) = (None, self2)"
    and r: "run_lines github_agent ls self2 = Some self'"
    by (auto split: prod.splits option.splits)
  have p2: "pos self2 = Suc (pos self)"
    using turn_pos [of github_agent "strip l" "self\<lparr>pos := Suc (pos self)\<rparr>"] t by simp
  have c2: "map call_prompt (calls self2) = map call_prompt (calls self) @ [strip l]"
    using turn_prompts [of github_agent "strip l" "self\<lparr>pos := Suc (pos self)\<rparr>"] t by simp
  have rest: "\<forall>i < length ls. stdin (pos self2 + i) = Some (ls ! i) \<and> \<not> is_quit (ls ! i)"
  proof (intro allI impI)
    fix i assume "i < length ls"
    then have "Suc i < length (l # ls)" by simp
    with Cons.prems(1) have "stdin (pos self + Suc i) = Some ((l # ls) ! Suc i) \<and> \<not> is_quit ((l # ls) ! Suc i)"
      by blast
    then show "stdin (pos self2 + i) = Some (ls ! i) \<and> \<not> is_quit (ls ! i)"
      by (simp add: p2)
  qed
  have nxt: "stdin (pos self2 + length ls) = Some line"
    using Cons.prems(3) by (simp add: p2)
  have step: "chat_loop github_agent stdin self = chat_loop github_agent stdin self2"
    using l t by (rule chat_loop_step)
  from Cons.IH [OF rest r nxt Cons.prems(4)] step p2 c2
  show ?case by simp
qed

lemma demo_quit: "is_quit ''  QUIT ''" "\<not> is_quit ''what is this repo?''"
  by code_simp+

lemma demo_strip: "strip ''what is this repo?'' = ''what is this repo?''"
  by code_simp

lemma demo_turn:
  "turn demo_agent ''what is this repo?'' (demo_cli\<lparr>pos := Suc (pos demo_cli)\<rparr>) = (None, demo_final)"
  by (simp add: demo_cli_def demo_final_def turn_def demo_agent_def Let_def
        is_intermediate_def UserPromptPart_def TextPart_def)

lemma demo_run: "run_lines demo_agent [''what is this repo?''] demo_cli = Some demo_final"
  by (simp add: demo_strip demo_turn)

lemma demo_loop:
  "chat_loop demo_agent demo_stdin demo_cli = Some (None, demo_final\<lparr>pos := 2\<rparr>)"
proof -
  have "chat_loop demo_agent demo_stdin demo_cli = chat_loop demo_agent demo_stdin demo_final"
    by (rule chat_loop_step [where line = "''what is this repo?''"])
       (simp_all add: demo_stdin_def demo_cli_def demo_quit demo_strip demo_turn [unfolded demo_cli_def, simplified])
  also have "\<dots> = Some (None, demo_final\<lparr>pos := Suc (pos demo_final)\<rparr>)"
    by (rule chat_loop_quit [where line = "''  QUIT ''"])
       (simp_all add: demo_stdin_def demo_final_def demo_quit)
  finally show ?thesis by (simp add: demo_final_def)
qed

theorem C6_quit_ends_loop_witness:
  "is_quit ''  QUIT '' \<and> \<not> is_quit ''what is this repo?''
   \<and> chat_loop demo_agent demo_stdin demo_cli = Some (None, demo_final\<lparr>pos := 2\<rparr>)
   \<and> map call_prompt (calls demo_final) = [''what is this repo?'']"
  using C6_quit_ends_loop [where ls = "[''what is this repo?'']" and stdin = demo_stdin
      and self = demo_cli and github_agent = demo_agent and line = "''  QUIT ''", OF _ demo_run]
    demo_quit
  by (simp add: demo_stdin_def demo_cli_def demo_final_def)

section \<open>The order of the history\<close>

lemma convert_history_ok:
  assumes "history_ok h"
  shows "convert_history h acc = Inr (acc @ map to_message (filter kept_role h))"
  using assms
proof (induction h arbitrary: acc)
  case Nil
  then show ?case by simp
next
  case (Cons msg h)
  then obtain role where role: "map_of msg ''role'' = Some role" and h: "history_ok h"
    and c: "kept_role msg \<longrightarrow> map_of msg ''content'' \<noteq> None"
    by (auto simp: history_ok_def)
  show ?case
  proof (cases "kept_role msg")
    case True
    with c obtain t where "map_of msg ''content'' = Some t" by auto
    with True role Cons.IH [OF h] show ?thesis
      by (auto simp: kept_role_def to_message_def content_of_def)
  next
    case False
    with role Cons.IH [OF h] show ?thesis
      by (auto simp: kept_role_def)
  qed
qed

lemma chat_call:
  assumes "groq_token request \<noteq> []" and "history request = Some h" and "history_ok h"
  shows "snd (chat get_github_agent request)
         = [\<lparr>call_prompt = chat_message request, call_token = chat_github_token request,
             call_history = map to_message (filter kept_role h)\<rparr>]"
  using assms by (simp add: chat_def Let_def convert_history_ok split: sum.splits)

lemma turn_messages:
  assumes "github_agent \<lparr>call_prompt = u, call_token = env_token self, call_history = messages self\<rparr>
           = Inr result"
  shows "messages (snd (turn github_agent u self))
         = messages self @ [ModelRequest [UserPromptPart u]]
           @ filter is_intermediate (new_messages result)
           @ [ModelResponse [TextPart (data result)]]"
  using assms by (simp add: turn_def Let_def)

lemma turn_prefix: "prefix (messages self) (messages (snd (turn github_agent u self)))"
  by (simp add: turn_def Let_def split: sum.splits)

lemma chat_loop_prefix:
  assumes run: "chat_loop github_agent stdin self = Some res"
  shows "prefix (messages self) (messages (snd res))"
proof (rule chat_loop.raw_induct
    [where P = "\<lambda>ag inp s r. prefix (messages s) (messages (snd r))", OF _ run], goal_cases)
  case (1 loop ag inp s r)
  show ?case
  proof (cases "inp (pos s)")
    case None
    with 1(2) have "r = (Some EOFError, s)" by simp
    then show ?thesis by simp
  next
    case (Some line)
    note line = Some
    show ?thesis
    proof (cases "lower (strip line) = ''quit''")
      case True
      with line 1(2) have "r = (None, s\<lparr>pos := Suc (pos s)\<rparr>)" by (simp add: Let_def)
      then show ?thesis by simp
    next
      case False
      obtain err s2 where t: "turn ag (strip line) (s\<lparr>pos := Suc (pos s)\<rparr>) = (err, s2)"
        by (cases "turn ag (strip line) (s\<lparr>pos := Suc (pos s)\<rparr>)")
      have p: "prefix (messages s) (messages s2)"
        using turn_prefix [of "s\<lparr>pos := Suc (pos s)\<rparr>" ag "strip line"] t by simp
      show ?thesis
      proof (cases err)
        case None
        with line False t 1(2) have "loop ag inp s2 = Some r" by (simp add: Let_def)
        then have "prefix (messages s2) (messages (snd r))" by (rule 1(1))
        with p show ?thesis by (rule prefix_order.trans)
      next
        case (Some e)
        with line False t 1(2) have "r = (Some e, s2)"
          by (simp add: Let_def)
        with p show ?thesis by simp
      qed
    qed
  qed
qed

text \<open>
  Claim C7. The handler of \<open>/api/chat\<close> hands the agent the messages of \<open>request.history\<close>
  whose role is \<open>user\<close> or \<open>assistant\<close>, each turned into its agent message, in their
  original order. A turn of the command-line loop leaves \<open>messages\<close> as the earlier
  messages, then the user message, then the intermediate messages of the run in their
  order, then the final response; and whenever the loop returns, the messages it started
  with are a prefix of the messages it ends with.
\<close>

theorem C7_history_order:
  "(groq_token request \<noteq> [] \<and> history request = Some h \<and> history_ok h
      \<longrightarrow> map call_history (snd (chat get_github_agent request))
           = [map to_message (filter kept_role h)])
   \<and> (github_agent \<lparr>call_prompt = u, call_token = env_token self, call_history = messages self\<rparr>
         = Inr result
      \<longrightarrow> messages (snd (turn github_agent u self))
           = messages self @ [ModelRequest [UserPromptPart u]]
             @ filter is_intermediate (new_messages result)
             @ [ModelResponse [TextPart (data result)]])
   \<and> (chat_loop github_agent stdin self = Some res
      \<longrightarrow> prefix (messages self) (messages (snd res)))"
  by (simp add: chat_call turn_messages chat_loop_prefix)

lemma demo_history_ok: "history_ok demo_history"
  by (simp add: history_ok_def demo_history_def kept_role_def)

theorem C7_history_order_witness:
  "groq_token (demo_request ''key'') \<noteq> [] \<and> history_ok demo_history
   \<and> map call_history (snd (chat (\<lambda>key. demo_agent) (demo_request ''key'')))
       = [ [ModelRequest [UserPromptPart ''hi''], ModelResponse [TextPart ''hello'']] ]
   \<and> messages (snd (turn demo_agent ''what is this repo?'' demo_cli))
       = [ModelRequest [UserPromptPart ''hi''], ModelResponse [TextPart ''hello''],
          ModelRequest [UserPromptPart ''what is this repo?''],
          ModelResponse [\<lparr>part_kind = ''tool-call'', content = [], tool_call = None\<rparr>],
          ModelRequest [\<lparr>part_kind = ''tool-return'', content = ''ok'', tool_call = None\<rparr>],
          ModelResponse [TextPart ''It is a demo.'']]
   \<and> chat_loop demo_agent demo_stdin demo_cli = Some (None, demo_final\<lparr>pos := 2\<rparr>)
   \<and> prefix (messages demo_cli) (messages demo_final)"
  using C7_history_order [where request = "demo_request ''key''" and h = demo_history
      and get_github_agent = "\<lambda>key. demo_agent" and github_agent = demo_agent
      and u = "''what is this repo?''" and self = demo_cli and stdin = demo_stdin
      and result = "\<lparr>data = ''It is a demo.'',
          new_messages =
            [ModelRequest [UserPromptPart ''what is this repo?''],
             ModelResponse [\<lparr>part_kind = ''tool-call'', content = [], tool_call = None\<rparr>],
             ModelRequest [\<lparr>part_kind = ''tool-return'', content = ''ok'', tool_call = None\<rparr>],
             ModelResponse [TextPart ''It is a demo.'']]\<rparr>"
      and res = "(None, demo_final\<lparr>pos := 2\<rparr>)"]
    demo_history_ok demo_loop
  by (simp add: demo_request_def demo_history_def kept_role_def to_message_def content_of_def
        demo_agent_def demo_cli_def is_intermediate_def UserPromptPart_def TextPart_def)

end
